theory Spec2Isabelle
  imports Main "HOL-Library.List_Lexorder" "HOL-Library.AList"
begin

section \<open>JavaScript strings\<close>

text \<open>
  A JavaScript string is modelled as a \<open>string\<close>: a list of code units, each below 256
  (the Latin-1 range). \<open>length\<close> is the \<open>.length\<close> of the source. The white space of
  \<open>\s\<close>, of \<open>String.prototype.trim\<close> and of \<open>parseInt\<close> is, in that range, TAB, LF, VT, FF,
  CR, SPACE and NO-BREAK SPACE.
\<close>

definition isWhiteSpace :: "char \<Rightarrow> bool" where
  "isWhiteSpace c =
     (c = CHR 0x09 \<or> c = CHR 0x0A \<or> c = CHR 0x0B \<or> c = CHR 0x0C \<or> c = CHR 0x0D
      \<or> c = CHR 0x20 \<or> c = CHR 0xA0)"

definition trimStart :: "string \<Rightarrow> string" where
  "trimStart s = dropWhile isWhiteSpace s"

definition trimEnd :: "string \<Rightarrow> string" where
  "trimEnd s = rev (dropWhile isWhiteSpace (rev s))"

text \<open>\<open>s.trim()\<close>, and equally \<open>s.replace(/^\s+|\s+$/g, '')\<close>.\<close>

definition trim :: "string \<Rightarrow> string" where
  "trim s = trimEnd (trimStart s)"

text \<open>\<open>s.split(sep)\<close> for a one-character separator: \<open>''''.split('.')\<close> is \<open>['''']\<close>.\<close>

fun splitOn :: "char \<Rightarrow> string \<Rightarrow> string list" where
  "splitOn sep [] = [] # []"
| "splitOn sep (c # cs) =
     (if c = sep then [] # splitOn sep cs
      else (case splitOn sep cs of
              [] \<Rightarrow> [c] # []
            | u # us \<Rightarrow> (c # u) # us))"

section \<open>parseInt\<close>

text \<open>
  The Number values that \<open>parseInt\<close> returns: \<open>NaN\<close>, an integer that a double holds
  exactly (\<open>-0\<close> is not told apart from \<open>0\<close>: \<open>===\<close>, \<open>>\<close> and \<open>||\<close> do not either), and
  the two infinities.
\<close>

datatype jsNumber = NaN | Finite int | PosInfinity | NegInfinity

text \<open>The number of binary digits of a non-negative integer.\<close>

function bitLength :: "int \<Rightarrow> nat" where
  "bitLength n = (if n \<le> 0 then 0 else Suc (bitLength (n div 2)))"
  by pat_completeness auto
termination
  by (relation "measure nat") auto

declare bitLength.simps [simp del]

text \<open>
  The double nearest to a non-negative integer, ties to the even significand of 53 bits;
  \<open>None\<close> is \<open>Infinity\<close>, from \<open>2^1024 - 2^970\<close> on. Below \<open>2^53\<close> every integer is a
  double.
\<close>

definition roundToDouble :: "int \<Rightarrow> int option" where
  "roundToDouble n =
     (if n < 2 ^ 53 then Some n
      else
        (let e = bitLength n - 53;
             q = n div 2 ^ e;
             r = n mod 2 ^ e;
             half = 2 ^ (e - 1);
             q' = (if r > half \<or> (r = half \<and> odd q) then q + 1 else q);
             v = q' * 2 ^ e
         in if v \<ge> 2 ^ 1024 then None else Some v))"

definition toNumber :: "bool \<Rightarrow> int \<Rightarrow> jsNumber" where
  "toNumber negative mathInt =
     (case roundToDouble mathInt of
        None \<Rightarrow> (if negative then NegInfinity else PosInfinity)
      | Some v \<Rightarrow> Finite (if negative then - v else v))"

text \<open>
  \<open>parseInt(s)\<close> with no radix: skip leading white space, read an optional sign, switch to
  radix 16 after a \<open>0x\<close> or \<open>0X\<close> prefix, and read the longest prefix of digits of the
  radix. No digit gives \<open>NaN\<close>; otherwise the result is the Number for the signed value of
  the digits. (The language lets an implementation replace the decimal digits after the
  20th by zeros before rounding; the model rounds the exact value.)
\<close>

definition digitValue :: "char \<Rightarrow> nat option" where
  "digitValue c =
     (let n = (of_char c :: nat) in
      if 48 \<le> n \<and> n \<le> 57 then Some (n - 48)
      else if 97 \<le> n \<and> n \<le> 102 then Some (n - 87)
      else if 65 \<le> n \<and> n \<le> 70 then Some (n - 55)
      else None)"

definition isRadixDigit :: "nat \<Rightarrow> char \<Rightarrow> bool" where
  "isRadixDigit R c = (case digitValue c of None \<Rightarrow> False | Some d \<Rightarrow> d < R)"

definition addDigit :: "nat \<Rightarrow> int \<Rightarrow> char \<Rightarrow> int" where
  "addDigit R acc c = (case digitValue c of None \<Rightarrow> acc | Some d \<Rightarrow> acc * int R + int d)"

definition parseInt :: "string \<Rightarrow> jsNumber" where
  "parseInt input =
     (let S = trimStart input;
          negative = (take 1 S = ''-'');
          S1 = (if take 1 S = ''+'' \<or> take 1 S = ''-'' then drop 1 S else S);
          hex = (take 2 S1 = ''0x'' \<or> take 2 S1 = ''0X'');
          R = (if hex then 16 else 10);
          S2 = (if hex then drop 2 S1 else S1);
          Z = takeWhile (isRadixDigit R) S2
      in if Z = [] then NaN
         else toNumber negative (foldl (addDigit R) 0 Z))"

text \<open>\<open>x || 0\<close> on a Number: \<open>NaN\<close> and \<open>0\<close> are falsy and give \<open>0\<close>.\<close>

fun orZero :: "jsNumber \<Rightarrow> jsNumber" where
  "orZero NaN = Finite 0"
| "orZero x = x"

text \<open>\<open>a === b\<close> and \<open>a > b\<close> on Numbers; a comparison with \<open>NaN\<close> is false.\<close>

fun strictEquals :: "jsNumber \<Rightarrow> jsNumber \<Rightarrow> bool" where
  "strictEquals NaN b = False"
| "strictEquals a NaN = False"
| "strictEquals a b = (a = b)"

fun greaterThan :: "jsNumber \<Rightarrow> jsNumber \<Rightarrow> bool" where
  "greaterThan NaN b = False"
| "greaterThan a NaN = False"
| "greaterThan (Finite x) (Finite y) = (x > y)"
| "greaterThan PosInfinity PosInfinity = False"
| "greaterThan PosInfinity b = True"
| "greaterThan a PosInfinity = False"
| "greaterThan NegInfinity b = False"
| "greaterThan a NegInfinity = True"

section \<open>Version comparison (WebApp.ts)\<close>

text \<open>
  \<open>parseInt(units[i])\<close>: an index past the end reads \<open>undefined\<close>, which \<open>parseInt\<close>
  converts to the string \<open>undefined\<close>.
\<close>

definition parseUnit :: "string list \<Rightarrow> nat \<Rightarrow> jsNumber" where
  "parseUnit units i = (if i < length units then parseInt (units ! i) else parseInt ''undefined'')"

text \<open>The \<open>for\<close> loop of \<open>#versionCompare\<close>, from index \<open>i\<close>.\<close>

function versionCompareLoop :: "string list \<Rightarrow> string list \<Rightarrow> nat \<Rightarrow> nat \<Rightarrow> int" where
  "versionCompareLoop v1Units v2Units longest i =
     (if i < longest then
        (let p1 = orZero (parseUnit v1Units i);
             p2 = orZero (parseUnit v2Units i)
         in if strictEquals p1 p2 then versionCompareLoop v1Units v2Units longest (Suc i)
            else if greaterThan p1 p2 then 1
            else - 1)
      else 0)"
  by pat_completeness auto
termination
  by (relation "measure (\<lambda>(v1Units, v2Units, longest, i). longest - i)") auto

declare versionCompareLoop.simps [simp del]

definition versionCompare :: "string \<Rightarrow> string \<Rightarrow> int" where
  "versionCompare v1 v2 =
     (let v1Units = splitOn CHR ''.'' (trim v1);
          v2Units = splitOn CHR ''.'' (trim v2);
          longestVersionString = max (length v1Units) (length v2Units)
      in versionCompareLoop v1Units v2Units longestVersionString 0)"

text \<open>\<open>#versionAtLeast\<close> and \<open>isVersionAtLeast\<close>, for the current version \<open>webAppVersion\<close>.\<close>

definition versionAtLeast :: "string \<Rightarrow> string \<Rightarrow> bool" where
  "versionAtLeast webAppVersion version = (versionCompare webAppVersion version \<ge> 0)"


subsection \<open>The version order of the specification\<close>














section \<open>Errors, callbacks and the transport\<close>

text \<open>The reasons for which \<open>WebAppPopupParamInvalidError\<close> is thrown, one per throw site.\<close>

datatype paramInvalid =
    TitleTooLong
  | MessageRequired
  | MessageTooLong
  | ButtonsNotArray
  | TooFewButtons
  | TooManyButtons
  | ButtonIdTooLong
  | ButtonTypeInvalid
  | ButtonTypeNotSet
  | ButtonTextRequired
  | ButtonTextTooLong
  | ParamsNotObject

text \<open>
  Every exception of the modelled code. \<open>WebAppMethodUnsupportedError\<close> carries the method
  name and the version; \<open>WebAppMethodUnsupported\<close>, \<open>WebAppInvoiceUrlInvalid\<close> and
  \<open>WebAppInvoiceOpened\<close> are the plain \<open>Error\<close>s of WebApp.ts; \<open>TypeError\<close> is raised by
  the language itself (destructuring \<open>null\<close>, \<open>new URL\<close> on a malformed url).
\<close>

datatype error =
    WebAppPopupParamInvalidError paramInvalid
  | WebAppMethodUnsupportedError string string
  | WebAppPopupOpenedError
  | WebAppInlineModeDisabled
  | WebAppInlineQueryInvalid
  | WebAppInlineChooseChatTypesInvalid
  | WebAppInlineChooseChatTypeInvalid
  | WebAppInvoiceUrlInvalid
  | WebAppMethodUnsupported
  | WebAppInvoiceOpened
  | TypeError

text \<open>
  A callback of the application is a function value; the model names it by a number (its
  identity) and records each call. The popup stores either such a callback or one of the
  two closures that \<open>showAlert\<close> and \<open>showConfirm\<close> build around it.
\<close>

type_synonym callbackRef = nat

datatype popupCallback =
    ShowPopupCallback callbackRef
  | CallbackWithoutID "callbackRef option"
  | ConfirmPopupCallback "callbackRef option"

datatype callArgs =
    NoArgs
  | StringArg string
  | BoolArg bool
  | NullableStringArg "string option"

section \<open>WebAppPopupButton\<close>

text \<open>
  \<open>EventPopupButton\<close>: the object a \<open>WebAppPopupButton\<close> builds, starting from \<open>{}\<close>, and
  also the shape of its configuration. An absent field is \<open>None\<close>.
\<close>

record eventPopupButton =
  btn_id :: "string option"
  btn_type :: "string option"
  btn_text :: "string option"

definition emptyButton :: eventPopupButton where
  "emptyButton = \<lparr>btn_id = None, btn_type = None, btn_text = None\<rparr>"

definition TYPES_DEFAULT :: string where "TYPES_DEFAULT = ''default''"
definition TYPES_OK :: string where "TYPES_OK = ''ok''"
definition TYPES_CLOSE :: string where "TYPES_CLOSE = ''close''"
definition TYPES_CANCEL :: string where "TYPES_CANCEL = ''cancel''"
definition TYPES_DESTRUCTIVE :: string where "TYPES_DESTRUCTIVE = ''destructive''"

definition VALID_BUTTON_TYPES :: "string list" where
  "VALID_BUTTON_TYPES = [TYPES_DEFAULT, TYPES_OK, TYPES_CLOSE, TYPES_CANCEL, TYPES_DESTRUCTIVE]"

definition TYPES_WITH_REQUIRED_TEXT :: "string list" where
  "TYPES_WITH_REQUIRED_TEXT = [TYPES_DEFAULT, TYPES_DESTRUCTIVE]"

definition MAX_ID_LENGTH :: nat where "MAX_ID_LENGTH = 64"
definition MAX_TEXT_LENGTH :: nat where "MAX_TEXT_LENGTH = 64"

text \<open>The operand \<open>x\<close> of \<open>x ?? ''\<close>, an optional string, with the default applied.\<close>

definition orEmpty :: "string option \<Rightarrow> string" where
  "orEmpty x = (case x of None \<Rightarrow> [] | Some s \<Rightarrow> s)"

text \<open>Truthiness of an optional string: absent and the empty string are falsy.\<close>

definition truthy :: "string option \<Rightarrow> bool" where
  "truthy x = (case x of None \<Rightarrow> False | Some s \<Rightarrow> s \<noteq> [])"

definition setID :: "string option \<Rightarrow> eventPopupButton \<Rightarrow> error + eventPopupButton" where
  "setID ident button =
     (let stringifiedID = orEmpty ident
      in if length stringifiedID > MAX_ID_LENGTH
         then Inl (WebAppPopupParamInvalidError ButtonIdTooLong)
         else Inr (button\<lparr>btn_id := Some stringifiedID\<rparr>))"

definition setType :: "string option \<Rightarrow> eventPopupButton \<Rightarrow> error + eventPopupButton" where
  "setType ty button =
     (let isValidType = (case ty of None \<Rightarrow> False | Some t \<Rightarrow> t \<in> set VALID_BUTTON_TYPES)
      in if \<not> isValidType
         then Inl (WebAppPopupParamInvalidError ButtonTypeInvalid)
         else Inr (button\<lparr>btn_type := ty\<rparr>))"

definition setText :: "string option \<Rightarrow> eventPopupButton \<Rightarrow> error + eventPopupButton" where
  "setText text button =
     (if \<not> truthy (btn_type button)
      then Inl (WebAppPopupParamInvalidError ButtonTypeNotSet)
      else
        (let isTextRequired = (orEmpty (btn_type button) \<in> set TYPES_WITH_REQUIRED_TEXT)
         in if \<not> isTextRequired then Inr button
            else
              (let normalizedText = trim (orEmpty text)
               in if normalizedText = []
                  then Inl (WebAppPopupParamInvalidError ButtonTextRequired)
                  else if length normalizedText > MAX_TEXT_LENGTH
                  then Inl (WebAppPopupParamInvalidError ButtonTextTooLong)
                  else Inr (button\<lparr>btn_text := Some normalizedText\<rparr>))))"

text \<open>
  The constructor, \<open>this.#setID(id).#setType(type).#setText(text)\<close>, and the \<open>data\<close>
  getter of the object it builds: \<open>new WebAppPopupButton(config).data\<close>.
\<close>

definition WebAppPopupButton :: "eventPopupButton \<Rightarrow> error + eventPopupButton" where
  "WebAppPopupButton config =
     (case setID (btn_id config) emptyButton of
        Inl e \<Rightarrow> Inl e
      | Inr b1 \<Rightarrow>
          (case setType (btn_type config) b1 of
             Inl e \<Rightarrow> Inl e
           | Inr b2 \<Rightarrow> setText (btn_text config) b2))"

section \<open>Popup (Popup.ts)\<close>

record openPopupEventData =
  title :: "string option"
  message :: "string option"
  buttons :: "eventPopupButton list option"

record popupData =
  params :: openPopupEventData
  callback :: "popupCallback option"

record popup =
  isOpened :: bool
  data :: popupData

definition emptyParams :: openPopupEventData where
  "emptyParams = \<lparr>title = None, message = None, buttons = None\<rparr>"

definition createInitialState :: popupData where
  "createInitialState = \<lparr>params = emptyParams, callback = None\<rparr>"

text \<open>A new \<open>Popup\<close>.\<close>

definition newPopup :: popup where
  "newPopup = \<lparr>isOpened = False, data = createInitialState\<rparr>"

definition MAX_TITLE_LENGTH :: nat where "MAX_TITLE_LENGTH = 64"
definition MAX_MESSAGE_LENGTH :: nat where "MAX_MESSAGE_LENGTH = 256"
definition MIN_BUTTONS :: nat where "MIN_BUTTONS = 1"
definition MAX_BUTTONS :: nat where "MAX_BUTTONS = 3"

text \<open>
  The \<open>buttons\<close> a caller passes: a falsy value (omitted, \<open>undefined\<close>, \<open>null\<close>), a truthy value
  that is not an array, or an array of button configurations.
\<close>

datatype buttonsArg =
    ButtonsOmitted
  | ButtonsNonArray
  | ButtonsArray "eventPopupButton list"

record popupParams =
  paramTitle :: "string option"
  paramMessage :: "string option"
  paramButtons :: buttonsArg

definition setCallback :: "popupCallback option \<Rightarrow> popup \<Rightarrow> popup" where
  "setCallback cb p =
     (case cb of
        None \<Rightarrow> p
      | Some c \<Rightarrow> p\<lparr>data := (data p)\<lparr>callback := Some c\<rparr>\<rparr>)"

definition setTitle :: "string option \<Rightarrow> popup \<Rightarrow> error + popup" where
  "setTitle t p =
     (if \<not> truthy t then Inr p
      else
        (let trimmedTitle = trim (orEmpty t)
         in if length trimmedTitle = 0 then Inr p
            else if length (orEmpty t) > MAX_TITLE_LENGTH
            then Inl (WebAppPopupParamInvalidError TitleTooLong)
            else Inr (p\<lparr>data := (data p)\<lparr>params := (params (data p))\<lparr>title := Some trimmedTitle\<rparr>\<rparr>\<rparr>)))"

definition setMessage :: "string option \<Rightarrow> popup \<Rightarrow> error + popup" where
  "setMessage m p =
     (let trimmedMessage = trim (orEmpty m)
      in if trimmedMessage = []
         then Inl (WebAppPopupParamInvalidError MessageRequired)
         else if length trimmedMessage > MAX_MESSAGE_LENGTH
         then Inl (WebAppPopupParamInvalidError MessageTooLong)
         else Inr (p\<lparr>data := (data p)\<lparr>params := (params (data p))\<lparr>message := Some trimmedMessage\<rparr>\<rparr>\<rparr>))"

text \<open>
  \<open>buttons.map((button) => new WebAppPopupButton(button).data)\<close>: the first constructor
  that throws ends the map.
\<close>

fun mapButtons :: "eventPopupButton list \<Rightarrow> error + eventPopupButton list" where
  "mapButtons [] = Inr []"
| "mapButtons (b # bs) =
     (case WebAppPopupButton b of
        Inl e \<Rightarrow> Inl e
      | Inr b' \<Rightarrow>
          (case mapButtons bs of
             Inl e \<Rightarrow> Inl e
           | Inr bs' \<Rightarrow> Inr (b' # bs')))"

text \<open>
  \<open>generatedId\<close> is what \<open>generateId(5)\<close> returns for this call (the generator is a utility
  outside the modelled files).
\<close>

definition setButtons :: "string \<Rightarrow> buttonsArg \<Rightarrow> popup \<Rightarrow> error + popup" where
  "setButtons generatedId bs p =
     (case bs of
        ButtonsOmitted \<Rightarrow>
          (case WebAppPopupButton \<lparr>btn_id = Some generatedId, btn_type = Some TYPES_CLOSE, btn_text = None\<rparr> of
             Inl e \<Rightarrow> Inl e
           | Inr b \<Rightarrow> Inr (p\<lparr>data := (data p)\<lparr>params := (params (data p))\<lparr>buttons := Some [b]\<rparr>\<rparr>\<rparr>))
      | ButtonsNonArray \<Rightarrow> Inl (WebAppPopupParamInvalidError ButtonsNotArray)
      | ButtonsArray arr \<Rightarrow>
          (if length arr < MIN_BUTTONS then Inl (WebAppPopupParamInvalidError TooFewButtons)
           else if length arr > MAX_BUTTONS then Inl (WebAppPopupParamInvalidError TooManyButtons)
           else
             (case mapButtons arr of
                Inl e \<Rightarrow> Inl e
              | Inr popupButtons \<Rightarrow>
                  Inr (p\<lparr>data := (data p)\<lparr>params := (params (data p))\<lparr>buttons := Some popupButtons\<rparr>\<rparr>\<rparr>))))"

text \<open>
  JavaScript values, as far as \<open>typeof\<close> tells them apart; an object carries its fields.
\<close>

datatype 'a jsValue =
    JSUndefined
  | JSNull
  | JSBoolean bool
  | JSNumber int
  | JSBigInt int
  | JSString string
  | JSSymbol
  | JSFunction
  | JSObject 'a

fun typeOf :: "'a jsValue \<Rightarrow> string" where
  "typeOf JSUndefined = ''undefined''"
| "typeOf JSNull = ''object''"
| "typeOf (JSBoolean b) = ''boolean''"
| "typeOf (JSNumber n) = ''number''"
| "typeOf (JSBigInt n) = ''bigint''"
| "typeOf (JSString s) = ''string''"
| "typeOf JSSymbol = ''symbol''"
| "typeOf JSFunction = ''function''"
| "typeOf (JSObject x) = ''object''"

text \<open>
  The parameter pattern \<open>{ params: { title, message, buttons }, callback }\<close> of \<open>open\<close>:
  destructuring \<open>undefined\<close> or \<open>null\<close> is a \<open>TypeError\<close>; any other value that is not an
  object with these fields gives three \<open>undefined\<close>.
\<close>

fun destructureParams :: "popupParams jsValue \<Rightarrow> error + popupParams" where
  "destructureParams JSUndefined = Inl TypeError"
| "destructureParams JSNull = Inl TypeError"
| "destructureParams (JSObject pp) = Inr pp"
| "destructureParams v = Inr \<lparr>paramTitle = None, paramMessage = None, paramButtons = ButtonsOmitted\<rparr>"

text \<open>
  \<open>open\<close>. The result is the exception thrown, if any, and the popup as the call leaves
  it: a setter that has run before a later one throws has already written its field.
\<close>

definition Popup_open ::
  "string \<Rightarrow> popup \<Rightarrow> popupParams jsValue \<Rightarrow> popupCallback option \<Rightarrow> error option \<times> popup" where
  "Popup_open generatedId p paramsArg cb =
     (case destructureParams paramsArg of
        Inl e \<Rightarrow> (Some e, p)
      | Inr pp \<Rightarrow>
          (if isOpened p then (None, p)
           else
             (case setTitle (paramTitle pp) p of
                Inl e \<Rightarrow> (Some e, p)
              | Inr p1 \<Rightarrow>
                  (case setMessage (paramMessage pp) p1 of
                     Inl e \<Rightarrow> (Some e, p1)
                   | Inr p2 \<Rightarrow>
                       (case setButtons generatedId (paramButtons pp) p2 of
                          Inl e \<Rightarrow> (Some e, p2)
                        | Inr p3 \<Rightarrow> (None, (setCallback cb p3)\<lparr>isOpened := True\<rparr>))))))"

definition Popup_close :: "popup \<Rightarrow> popup" where
  "Popup_close p = p\<lparr>isOpened := False, data := createInitialState\<rparr>"

text \<open>\<open>Object.keys\<close> of the stored \<open>params\<close> object: the fields that have been written.\<close>

definition objectKeys :: "openPopupEventData \<Rightarrow> string list" where
  "objectKeys prm =
     (case title prm of None \<Rightarrow> [] | Some t \<Rightarrow> [''title''])
     @ (case message prm of None \<Rightarrow> [] | Some m \<Rightarrow> [''message''])
     @ (case buttons prm of None \<Rightarrow> [] | Some bs \<Rightarrow> [''buttons''])"

text \<open>The \<open>params\<close> getter: \<open>null\<close> when the stored object has no key.\<close>

definition Popup_params :: "popup \<Rightarrow> openPopupEventData option" where
  "Popup_params p =
     (let hasData = (length (objectKeys (params (data p))) > 0)
      in if hasData then Some (params (data p)) else None)"

definition Popup_callback :: "popup \<Rightarrow> popupCallback option" where
  "Popup_callback p = callback (data p)"

section \<open>Version and the pending-request registries\<close>

text \<open>
  Modelled from the spec: \<open>Version.isSuitableTo\<close>, whose class is not among the source
  files. The specification (4.1) has it parse both versions and compare them component by
  component, true iff current \<open>\<ge>\<close> target; the comparison is the one WebApp.ts implements.
\<close>

definition isSuitableTo :: "string \<Rightarrow> string \<Rightarrow> bool" where
  "isSuitableTo current target = (versionCompare current target \<ge> 0)"

text \<open>
  Modelled from the spec: the registry of clipboard requests (\<open>WebAppClipboard\<close>, not among
  the source files), a map from request id to the callback given, which may be absent;
  \<open>set\<close>, \<open>has\<close>, \<open>get\<close> and \<open>remove\<close> have their standard meaning (4.3). The map is kept
  as the list of its entries, one per key.
\<close>

type_synonym clipboardRequests = "(string \<times> callbackRef option) list"

definition hasRequest :: "clipboardRequests \<Rightarrow> string \<Rightarrow> bool" where
  "hasRequest reg k = (case map_of reg k of None \<Rightarrow> False | Some c \<Rightarrow> True)"

definition getRequest :: "clipboardRequests \<Rightarrow> string \<Rightarrow> callbackRef option" where
  "getRequest reg k = (case map_of reg k of None \<Rightarrow> None | Some c \<Rightarrow> c)"

definition removeRequest :: "clipboardRequests \<Rightarrow> string \<Rightarrow> clipboardRequests" where
  "removeRequest reg k = AList.delete k reg"

definition setRequest :: "clipboardRequests \<Rightarrow> string \<Rightarrow> callbackRef option \<Rightarrow> clipboardRequests" where
  "setRequest reg k c = AList.update k c reg"

text \<open>
  Modelled from the spec: the registry of open invoices (\<open>Invoices\<close>, not among the source
  files), a map from slug to the url and the callback; \<open>remove\<close> returns the entry it
  removes, as its caller reads it.
\<close>

record invoice =
  invoiceUrl :: string
  invoiceCallback :: "callbackRef option"

type_synonym invoiceRegistry = "(string \<times> invoice) list"

definition Invoices_has :: "invoiceRegistry \<Rightarrow> string \<Rightarrow> bool" where
  "Invoices_has reg k = (case map_of reg k of None \<Rightarrow> False | Some v \<Rightarrow> True)"

definition Invoices_save :: "invoiceRegistry \<Rightarrow> string \<Rightarrow> invoice \<Rightarrow> invoiceRegistry" where
  "Invoices_save reg k v = AList.update k v reg"

definition Invoices_remove :: "invoiceRegistry \<Rightarrow> string \<Rightarrow> invoice option \<times> invoiceRegistry" where
  "Invoices_remove reg k = (map_of reg k, AList.delete k reg)"

section \<open>TelegramWebApp\<close>

text \<open>
  What reaches the collaborators, in order: an event posted to the host
  (\<open>webView.postEvent(name, undefined, payload)\<close>), an application event handed to
  \<open>webView.callEventCallbacks(name, ...)\<close> with its arguments, and a call of an
  application callback.
\<close>

datatype payload =
    NoPayload
  | OpenPopupPayload openPopupEventData
  | OpenInvoicePayload string
  | ReadClipboardPayload string
  | SwitchInlineQueryPayload string "string list"

datatype webViewEventParams =
    PopupClosedParams "string option"
  | ClipboardTextReceivedParams "string option"
  | InvoiceClosedParams string string

datatype effect =
    PostEvent string payload
  | CallEventCallbacks string "webViewEventParams option"
  | Call callbackRef callArgs

record telegramWebApp =
  version :: string
  tgWebAppBotInline :: "bool option"
  popup :: popup
  clipboard :: clipboardRequests
  invoices :: invoiceRegistry
  effects :: "effect list"

definition postEvent :: "string \<Rightarrow> payload \<Rightarrow> telegramWebApp \<Rightarrow> telegramWebApp" where
  "postEvent name pl st = st\<lparr>effects := effects st @ [PostEvent name pl]\<rparr>"

text \<open>\<open>#receiveWebViewEvent\<close>: \<open>callbackArgs\<close> is \<open>[params]\<close>, or \<open>[]\<close> when there are none.\<close>

definition receiveWebViewEvent ::
  "string \<Rightarrow> webViewEventParams option \<Rightarrow> telegramWebApp \<Rightarrow> telegramWebApp" where
  "receiveWebViewEvent eventType callbackArgs st =
     st\<lparr>effects := effects st @ [CallEventCallbacks (''webview:'' @ eventType) callbackArgs]\<rparr>"

text \<open>\<open>callback?.(args)\<close> on an application callback.\<close>

definition callOptional :: "callbackRef option \<Rightarrow> callArgs \<Rightarrow> telegramWebApp \<Rightarrow> telegramWebApp" where
  "callOptional cb args st =
     (case cb of
        None \<Rightarrow> st
      | Some f \<Rightarrow> st\<lparr>effects := effects st @ [Call f args]\<rparr>)"

text \<open>
  \<open>callback?.(buttonID)\<close> on the callback the popup stores: the application's own, the
  \<open>callbackWithoutID\<close> of \<open>showAlert\<close> (\<open>callback?.()\<close>), or the \<open>popupCallback\<close> of
  \<open>showConfirm\<close> (\<open>callback?.(pressedBtnID === OK_BTN_ID)\<close>).
\<close>

definition OK_BTN_ID :: string where "OK_BTN_ID = ''ok''"

definition callPopupCallback ::
  "popupCallback option \<Rightarrow> string \<Rightarrow> telegramWebApp \<Rightarrow> telegramWebApp" where
  "callPopupCallback cb buttonID st =
     (case cb of
        None \<Rightarrow> st
      | Some (ShowPopupCallback f) \<Rightarrow> callOptional (Some f) (StringArg buttonID) st
      | Some (CallbackWithoutID c) \<Rightarrow> callOptional c NoArgs st
      | Some (ConfirmPopupCallback c) \<Rightarrow> callOptional c (BoolArg (buttonID = OK_BTN_ID)) st)"

text \<open>\<open>#onPopupClosed\<close>; \<open>button_id\<close> is the field of the event data, absent or a string.\<close>

definition onPopupClosed :: "telegramWebApp \<Rightarrow> string option \<Rightarrow> telegramWebApp" where
  "onPopupClosed st button_id =
     (if \<not> isOpened (popup st) then st
      else
        (let cb = Popup_callback (popup st);
             st1 = st\<lparr>popup := Popup_close (popup st)\<rparr>;
             buttonID = button_id;
             st2 = (if truthy buttonID then callPopupCallback cb (orEmpty buttonID) st1 else st1)
         in receiveWebViewEvent ''popupClosed'' (Some (PopupClosedParams buttonID)) st2))"

text \<open>\<open>#onClipboardTextReceived\<close>; \<open>data\<close> defaults to \<open>null\<close>.\<close>

definition onClipboardTextReceived ::
  "telegramWebApp \<Rightarrow> string option \<Rightarrow> string option \<Rightarrow> telegramWebApp" where
  "onClipboardTextReceived st req_id textData =
     (if \<not> truthy req_id \<or> \<not> hasRequest (clipboard st) (orEmpty req_id) then st
      else
        (let cb = getRequest (clipboard st) (orEmpty req_id);
             st1 = st\<lparr>clipboard := removeRequest (clipboard st) (orEmpty req_id)\<rparr>;
             st2 = callOptional cb (NullableStringArg textData) st1
         in receiveWebViewEvent ''clipboardTextReceived'' (Some (ClipboardTextReceivedParams textData)) st2))"

text \<open>
  \<open>#onInvoiceClosed\<close>. Destructuring the result of \<open>remove\<close> would raise a \<open>TypeError\<close>
  if there were no entry.
\<close>

definition onInvoiceClosed ::
  "telegramWebApp \<Rightarrow> string option \<Rightarrow> string \<Rightarrow> error option \<times> telegramWebApp" where
  "onInvoiceClosed st slug status =
     (if \<not> truthy slug then (None, st)
      else if \<not> Invoices_has (invoices st) (orEmpty slug) then (None, st)
      else
        (case Invoices_remove (invoices st) (orEmpty slug) of
           (None, reg) \<Rightarrow> (Some TypeError, st\<lparr>invoices := reg\<rparr>)
         | (Some entry, reg) \<Rightarrow>
             (let st1 = st\<lparr>invoices := reg\<rparr>;
                  st2 = callOptional (invoiceCallback entry) (StringArg status) st1
              in (None, receiveWebViewEvent ''invoiceClosed''
                          (Some (InvoiceClosedParams (invoiceUrl entry) status)) st2))))"

text \<open>
  \<open>openInvoice\<close>. \<open>create\<close> is \<open>Invoices.create\<close>, which is not among the source files: it
  returns the slug for a url, or throws.
\<close>

definition openInvoice ::
  "(string \<Rightarrow> error + string) \<Rightarrow> telegramWebApp \<Rightarrow> string \<Rightarrow> callbackRef option
     \<Rightarrow> error option \<times> telegramWebApp" where
  "openInvoice create st url cb =
     (case create url of
        Inl e \<Rightarrow> (Some e, st)
      | Inr slug \<Rightarrow>
          (let st1 = st\<lparr>invoices := Invoices_save (invoices st) slug
                                        \<lparr>invoiceUrl = url, invoiceCallback = cb\<rparr>\<rparr>
           in (None, postEvent ''web_app_open_invoice'' (OpenInvoicePayload slug) st1)))"

text \<open>\<open>readTextFromClipboard\<close>; \<open>generatedId\<close> is what \<open>generateId(16)\<close> returns.\<close>

definition readTextFromClipboard ::
  "string \<Rightarrow> telegramWebApp \<Rightarrow> callbackRef option \<Rightarrow> error option \<times> telegramWebApp" where
  "readTextFromClipboard generatedId st cb =
     (if \<not> isSuitableTo (version st) ''6.4''
      then (Some (WebAppMethodUnsupportedError ''readTextFromClipboard'' (version st)), st)
      else
        (let st1 = st\<lparr>clipboard := setRequest (clipboard st) generatedId cb\<rparr>
         in (None, postEvent ''web_app_read_text_from_clipboard'' (ReadClipboardPayload generatedId) st1)))"

text \<open>The guard of \<open>showPopup\<close>: \<open>typeof params !== 'object' && params === null\<close>.\<close>

definition paramsGuard :: "'a jsValue \<Rightarrow> bool" where
  "paramsGuard v = (typeOf v \<noteq> ''object'' \<and> v = JSNull)"

definition showPopup ::
  "string \<Rightarrow> telegramWebApp \<Rightarrow> popupParams jsValue \<Rightarrow> popupCallback option
     \<Rightarrow> error option \<times> telegramWebApp" where
  "showPopup generatedId st paramsArg cb =
     (if \<not> isSuitableTo (version st) ''6.2''
      then (Some (WebAppMethodUnsupportedError ''showPopup'' (version st)), st)
      else if isOpened (popup st) then (Some WebAppPopupOpenedError, st)
      else if paramsGuard paramsArg then (Some (WebAppPopupParamInvalidError ParamsNotObject), st)
      else
        (case Popup_open generatedId (popup st) paramsArg cb of
           (Some e, p) \<Rightarrow> (Some e, st\<lparr>popup := p\<rparr>)
         | (None, p) \<Rightarrow>
             (let eventData = (case Popup_params p of None \<Rightarrow> emptyParams | Some d \<Rightarrow> d)
              in (None, postEvent ''web_app_open_popup'' (OpenPopupPayload eventData)
                          (st\<lparr>popup := p\<rparr>)))))"

definition showAlert ::
  "string \<Rightarrow> telegramWebApp \<Rightarrow> string \<Rightarrow> callbackRef option \<Rightarrow> error option \<times> telegramWebApp" where
  "showAlert generatedId st msg cb =
     showPopup generatedId st
       (JSObject \<lparr>paramTitle = None, paramMessage = Some msg, paramButtons = ButtonsOmitted\<rparr>)
       (Some (CallbackWithoutID cb))"

text \<open>
  \<open>showConfirm\<close>: the two buttons are built first, each by the validating constructor,
  then \<open>showPopup\<close> is called with them and the wrapped callback.
\<close>

definition showConfirm ::
  "string \<Rightarrow> telegramWebApp \<Rightarrow> string \<Rightarrow> callbackRef option \<Rightarrow> error option \<times> telegramWebApp" where
  "showConfirm generatedId st msg cb =
     (case WebAppPopupButton \<lparr>btn_id = Some OK_BTN_ID, btn_type = Some TYPES_OK, btn_text = None\<rparr> of
        Inl e \<Rightarrow> (Some e, st)
      | Inr okButton \<Rightarrow>
          (case WebAppPopupButton \<lparr>btn_id = Some [], btn_type = Some TYPES_CANCEL, btn_text = None\<rparr> of
             Inl e \<Rightarrow> (Some e, st)
           | Inr cancelButton \<Rightarrow>
               showPopup generatedId st
                 (JSObject \<lparr>paramTitle = None, paramMessage = Some msg,
                            paramButtons = ButtonsArray [okButton, cancelButton]\<rparr>)
                 (Some (ConfirmPopupCallback cb))))"

text \<open>
  A \<open>TelegramWebApp\<close> at a given version: a new popup, nothing pending, and an empty record
  of effects.
\<close>

definition appAtVersion :: "string \<Rightarrow> bool option \<Rightarrow> telegramWebApp" where
  "appAtVersion v inline =
     \<lparr>version = v, tgWebAppBotInline = inline, popup = newPopup,
      clipboard = [], invoices = [], effects = []\<rparr>"

subsection \<open>switchInlineQuery\<close>

definition MAX_INLINE_QUERY_LENGTH :: nat where "MAX_INLINE_QUERY_LENGTH = 256"

definition VALID_CHAT_TYPES :: "string list" where
  "VALID_CHAT_TYPES = [''users'', ''bots'', ''groups'', ''channels'']"

text \<open>
  The second argument: left out or \<open>undefined\<close>, \<open>null\<close>, some other value that is not an
  array (truthy or not), or an array of strings.
\<close>

datatype chatTypesArg =
    ChatTypesUndefined
  | ChatTypesNull
  | ChatTypesNonArray
  | ChatTypesArray "string list"

text \<open>\<open>[...new Set(xs)]\<close>: the elements in order of first occurrence.\<close>

definition setAdd :: "'a list \<Rightarrow> 'a \<Rightarrow> 'a list" where
  "setAdd acc x = (if x \<in> set acc then acc else acc @ [x])"

definition newSet :: "'a list \<Rightarrow> 'a list" where
  "newSet xs = foldl setAdd [] xs"

definition switchInlineQuery ::
  "telegramWebApp \<Rightarrow> string \<Rightarrow> chatTypesArg \<Rightarrow> error option \<times> telegramWebApp" where
  "switchInlineQuery st query chatTypesToChoose =
     (if \<not> isSuitableTo (version st) ''6.7''
      then (Some (WebAppMethodUnsupportedError ''switchInlineQuery'' (version st)), st)
      else if tgWebAppBotInline st \<noteq> Some True then (Some WebAppInlineModeDisabled, st)
      else
        (let queryToSend = trim query
         in if length queryToSend > MAX_INLINE_QUERY_LENGTH then (Some WebAppInlineQueryInvalid, st)
            else
              (case chatTypesToChoose of
                 ChatTypesArray chatTypes \<Rightarrow>
                   (let chats = newSet chatTypes
                    in if filter (\<lambda>chat. chat \<notin> set VALID_CHAT_TYPES) chats \<noteq> []
                       then (Some WebAppInlineChooseChatTypeInvalid, st)
                       else (None, postEvent ''web_app_switch_inline_query''
                                     (SwitchInlineQueryPayload queryToSend chats) st))
               | _ \<Rightarrow> (Some WebAppInlineChooseChatTypesInvalid, st))))"

section \<open>WebApp.openInvoice (WebApp.ts)\<close>

text \<open>
  The fields of \<open>new URL(url)\<close> that \<open>openInvoice\<close> reads. The URL parser is the
  platform's; the model takes it as the function \<open>parseUrl\<close>, \<open>None\<close> where \<open>new URL\<close>
  throws.
\<close>

record parsedUrl =
  protocol :: string
  hostname :: string
  pathname :: string

definition isSlugChar :: "char \<Rightarrow> bool" where
  "isSlugChar c =
     (let n = (of_char c :: nat)
      in (65 \<le> n \<and> n \<le> 90) \<or> (97 \<le> n \<and> n \<le> 122) \<or> (48 \<le> n \<and> n \<le> 57)
         \<or> c = CHR ''-'' \<or> c = CHR ''_'' \<or> c = CHR ''='')"

text \<open>
  \<open>pathname.match(/^\/(\$|invoice\/)([A-Za-z0-9\-_=]+)$/)\<close>, giving the second group.
\<close>

definition slugGroup :: "string \<Rightarrow> string option" where
  "slugGroup s = (if s \<noteq> [] \<and> filter (\<lambda>c. \<not> isSlugChar c) s = [] then Some s else None)"

definition matchInvoicePath :: "string \<Rightarrow> string option" where
  "matchInvoicePath path =
     (if take 2 path = ''/$'' then slugGroup (drop 2 path)
      else if take 9 path = ''/invoice/'' then slugGroup (drop 9 path)
      else None)"

text \<open>The state of the \<open>WebApp\<close> of WebApp.ts that \<open>openInvoice\<close> uses; \<open>webAppInvoices\<close> is a \<open>Map\<close>,
  kept as the list of its entries.\<close>

record webApp =
  webAppVersion :: string
  webAppInvoices :: "(string \<times> invoice) list"
  posted :: "effect list"

definition WebApp_openInvoice ::
  "(string \<Rightarrow> parsedUrl option) \<Rightarrow> webApp \<Rightarrow> string \<Rightarrow> callbackRef option
     \<Rightarrow> error option \<times> webApp" where
  "WebApp_openInvoice parseUrl st url cb =
     (case parseUrl url of
        None \<Rightarrow> (Some TypeError, st)
      | Some url2 \<Rightarrow>
          (case (if (protocol url2 \<noteq> ''http:'' \<and> protocol url2 \<noteq> ''https:'')
                    \<or> hostname url2 \<noteq> ''t.me''
                 then None else matchInvoicePath (pathname url2)) of
             None \<Rightarrow> (Some WebAppInvoiceUrlInvalid, st)
           | Some slug \<Rightarrow>
               (if \<not> versionAtLeast (webAppVersion st) ''6.1'' then (Some WebAppMethodUnsupported, st)
                else
                  (case map_of (webAppInvoices st) slug of
                     Some opened \<Rightarrow> (Some WebAppInvoiceOpened, st)
                   | None \<Rightarrow>
                       (None, st\<lparr>webAppInvoices :=
                                    AList.update slug \<lparr>invoiceUrl = url, invoiceCallback = cb\<rparr>
                                      (webAppInvoices st),
                                  posted := posted st @ [PostEvent ''web_app_open_invoice'' (OpenInvoicePayload slug)]\<rparr>)))))"

section \<open>The version gate\<close>




































section \<open>Popup buttons\<close>

lemma trim_empty: "trim [] = []"
  by (simp add: trim_def trimStart_def trimEnd_def)

lemmas button_defs = WebAppPopupButton_def setID_def setType_def setText_def emptyButton_def
  orEmpty_def truthy_def VALID_BUTTON_TYPES_def TYPES_WITH_REQUIRED_TEXT_def
  TYPES_DEFAULT_def TYPES_OK_def TYPES_CLOSE_def TYPES_CANCEL_def TYPES_DESTRUCTIVE_def
  MAX_ID_LENGTH_def MAX_TEXT_LENGTH_def

lemma WebAppPopupButton_cases:
  "WebAppPopupButton config =
     (if length (orEmpty (btn_id config)) > 64 then Inl (WebAppPopupParamInvalidError ButtonIdTooLong)
      else if btn_type config \<notin> Some ` set [''default'', ''ok'', ''close'', ''cancel'', ''destructive'']
      then Inl (WebAppPopupParamInvalidError ButtonTypeInvalid)
      else if btn_type config = Some ''default'' \<or> btn_type config = Some ''destructive''
      then (if trim (orEmpty (btn_text config)) = [] then Inl (WebAppPopupParamInvalidError ButtonTextRequired)
            else if length (trim (orEmpty (btn_text config))) > 64
            then Inl (WebAppPopupParamInvalidError ButtonTextTooLong)
            else Inr \<lparr>btn_id = Some (orEmpty (btn_id config)), btn_type = btn_type config,
                      btn_text = Some (trim (orEmpty (btn_text config)))\<rparr>)
      else Inr \<lparr>btn_id = Some (orEmpty (btn_id config)), btn_type = btn_type config, btn_text = None\<rparr>)"
  by (cases "btn_type config") (auto simp add: button_defs Let_def)


text \<open>
  C6. Building a button fails, always with \<open>WebAppPopupParamInvalidError\<close>, exactly when
  the id (absent: the empty string) is longer than 64 characters, or the type is not one
  of the five kinds, or the type is default or destructive and the trimmed text is empty
  or longer than 64 characters. The checks run in the order id, type, text: a long id fails
  on the id whatever the type and text; an unknown type fails on the type whatever the
  text. For ok, close and cancel the text supplied is dropped.
\<close>

theorem WebAppPopupButton_validation:
  "((\<exists>e. WebAppPopupButton config = Inl e) =
      (length (orEmpty (btn_id config)) > 64
       \<or> btn_type config \<notin> Some ` set [''default'', ''ok'', ''close'', ''cancel'', ''destructive'']
       \<or> ((btn_type config = Some ''default'' \<or> btn_type config = Some ''destructive'')
           \<and> (trim (orEmpty (btn_text config)) = []
                \<or> length (trim (orEmpty (btn_text config))) > 64))))
   \<and> ((\<exists>e. WebAppPopupButton config = Inl e) =
        (\<exists>r. WebAppPopupButton config = Inl (WebAppPopupParamInvalidError r)))
   \<and> (length (orEmpty (btn_id a)) > 64 \<longrightarrow>
        WebAppPopupButton a = Inl (WebAppPopupParamInvalidError ButtonIdTooLong))
   \<and> (length (orEmpty (btn_id b)) \<le> 64
        \<and> btn_type b \<notin> Some ` set [''default'', ''ok'', ''close'', ''cancel'', ''destructive'']
        \<longrightarrow> WebAppPopupButton b = Inl (WebAppPopupParamInvalidError ButtonTypeInvalid))
   \<and> (length (orEmpty (btn_id c)) \<le> 64
        \<and> btn_type c \<in> Some ` set [''default'', ''destructive'']
        \<and> (trim (orEmpty (btn_text c)) = [] \<or> length (trim (orEmpty (btn_text c))) > 64)
        \<longrightarrow> WebAppPopupButton c =
              Inl (WebAppPopupParamInvalidError
                     (if trim (orEmpty (btn_text c)) = [] then ButtonTextRequired else ButtonTextTooLong)))
   \<and> (length (orEmpty (btn_id d)) \<le> 64
        \<and> btn_type d \<in> Some ` set [''default'', ''destructive'']
        \<and> trim (orEmpty (btn_text d)) \<noteq> [] \<and> length (trim (orEmpty (btn_text d))) \<le> 64
        \<longrightarrow> WebAppPopupButton d =
              Inr \<lparr>btn_id = Some (orEmpty (btn_id d)), btn_type = btn_type d,
                    btn_text = Some (trim (orEmpty (btn_text d)))\<rparr>)
   \<and> (length (orEmpty (btn_id k)) \<le> 64
        \<and> btn_type k \<in> Some ` set [''ok'', ''close'', ''cancel'']
        \<longrightarrow> WebAppPopupButton k =
              Inr \<lparr>btn_id = Some (orEmpty (btn_id k)), btn_type = btn_type k, btn_text = None\<rparr>)"
proof -
  note C = WebAppPopupButton_cases
  have 1: "(\<exists>e. WebAppPopupButton config = Inl e) =
      (length (orEmpty (btn_id config)) > 64
       \<or> btn_type config \<notin> Some ` set [''default'', ''ok'', ''close'', ''cancel'', ''destructive'']
       \<or> ((btn_type config = Some ''default'' \<or> btn_type config = Some ''destructive'')
           \<and> (trim (orEmpty (btn_text config)) = []
                \<or> length (trim (orEmpty (btn_text config))) > 64)))"
    by (subst C) (auto split: if_splits)
  have 2: "(\<exists>e. WebAppPopupButton config = Inl e) =
        (\<exists>r. WebAppPopupButton config = Inl (WebAppPopupParamInvalidError r))"
    by (subst (1 2) C) (auto split: if_splits)
  have 3: "length (orEmpty (btn_id a)) > 64 \<longrightarrow>
        WebAppPopupButton a = Inl (WebAppPopupParamInvalidError ButtonIdTooLong)"
    by (subst C) simp
  have 4: "length (orEmpty (btn_id b)) \<le> 64
        \<and> btn_type b \<notin> Some ` set [''default'', ''ok'', ''close'', ''cancel'', ''destructive'']
        \<longrightarrow> WebAppPopupButton b = Inl (WebAppPopupParamInvalidError ButtonTypeInvalid)"
    by (subst C) simp
  have 5: "length (orEmpty (btn_id c)) \<le> 64
        \<and> btn_type c \<in> Some ` set [''default'', ''destructive'']
        \<and> (trim (orEmpty (btn_text c)) = [] \<or> length (trim (orEmpty (btn_text c))) > 64)
        \<longrightarrow> WebAppPopupButton c =
              Inl (WebAppPopupParamInvalidError
                     (if trim (orEmpty (btn_text c)) = [] then ButtonTextRequired else ButtonTextTooLong))"
    by (subst C) auto
  have 6: "length (orEmpty (btn_id d)) \<le> 64
        \<and> btn_type d \<in> Some ` set [''default'', ''destructive'']
        \<and> trim (orEmpty (btn_text d)) \<noteq> [] \<and> length (trim (orEmpty (btn_text d))) \<le> 64
        \<longrightarrow> WebAppPopupButton d =
              Inr \<lparr>btn_id = Some (orEmpty (btn_id d)), btn_type = btn_type d,
                    btn_text = Some (trim (orEmpty (btn_text d)))\<rparr>"
    by (subst C) auto
  have 7: "length (orEmpty (btn_id k)) \<le> 64
        \<and> btn_type k \<in> Some ` set [''ok'', ''close'', ''cancel'']
        \<longrightarrow> WebAppPopupButton k =
              Inr \<lparr>btn_id = Some (orEmpty (btn_id k)), btn_type = btn_type k, btn_text = None\<rparr>"
    by (subst C) auto
  from 1 2 3 4 5 6 7 show ?thesis by blast
qed


text \<open>
  The examples of the specification: an id of length 65, the type \<open>bogus\<close>, \<open>default\<close> with
  an empty text, \<open>ok\<close> with no text; and a destructive button whose text is trimmed, a
  cancel button whose text is dropped.
\<close>

theorem WebAppPopupButton_validation_witness:
  "length (orEmpty (btn_id \<lparr>btn_id = Some (replicate 65 CHR ''a''), btn_type = Some ''ok'', btn_text = None\<rparr>)) > 64
   \<and> WebAppPopupButton \<lparr>btn_id = Some (replicate 65 CHR ''a''), btn_type = Some ''ok'', btn_text = None\<rparr>
       = Inl (WebAppPopupParamInvalidError ButtonIdTooLong)
   \<and> WebAppPopupButton \<lparr>btn_id = Some ''b'', btn_type = Some ''bogus'', btn_text = None\<rparr>
       = Inl (WebAppPopupParamInvalidError ButtonTypeInvalid)
   \<and> WebAppPopupButton \<lparr>btn_id = Some ''b'', btn_type = Some ''default'', btn_text = Some []\<rparr>
       = Inl (WebAppPopupParamInvalidError ButtonTextRequired)
   \<and> WebAppPopupButton \<lparr>btn_id = Some ''b'', btn_type = Some ''destructive'', btn_text = Some '' Delete ''\<rparr>
       = Inr \<lparr>btn_id = Some ''b'', btn_type = Some ''destructive'', btn_text = Some ''Delete''\<rparr>
   \<and> WebAppPopupButton \<lparr>btn_id = Some ''b'', btn_type = Some ''ok'', btn_text = None\<rparr>
       = Inr \<lparr>btn_id = Some ''b'', btn_type = Some ''ok'', btn_text = None\<rparr>
   \<and> WebAppPopupButton \<lparr>btn_id = None, btn_type = Some ''cancel'', btn_text = Some ''dropped''\<rparr>
       = Inr \<lparr>btn_id = Some [], btn_type = Some ''cancel'', btn_text = None\<rparr>"
proof -
  have t1: "trim '' Delete '' = ''Delete''"
    by (simp add: trim_def trimStart_def trimEnd_def isWhiteSpace_def)
  note T = WebAppPopupButton_validation
  have a: "WebAppPopupButton \<lparr>btn_id = Some (replicate 65 CHR ''a''), btn_type = Some ''ok'', btn_text = None\<rparr>
       = Inl (WebAppPopupParamInvalidError ButtonIdTooLong)"
    using T[of _ "\<lparr>btn_id = Some (replicate 65 CHR ''a''), btn_type = Some ''ok'', btn_text = None\<rparr>"]
    by (simp add: orEmpty_def)
  have b: "WebAppPopupButton \<lparr>btn_id = Some ''b'', btn_type = Some ''bogus'', btn_text = None\<rparr>
       = Inl (WebAppPopupParamInvalidError ButtonTypeInvalid)"
    using T[of _ _ "\<lparr>btn_id = Some ''b'', btn_type = Some ''bogus'', btn_text = None\<rparr>"]
    by (simp add: orEmpty_def)
  have c: "WebAppPopupButton \<lparr>btn_id = Some ''b'', btn_type = Some ''default'', btn_text = Some []\<rparr>
       = Inl (WebAppPopupParamInvalidError ButtonTextRequired)"
    using T[of _ _ _ "\<lparr>btn_id = Some ''b'', btn_type = Some ''default'', btn_text = Some []\<rparr>"]
    by (simp add: orEmpty_def trim_empty)
  have d: "WebAppPopupButton \<lparr>btn_id = Some ''b'', btn_type = Some ''destructive'', btn_text = Some '' Delete ''\<rparr>
       = Inr \<lparr>btn_id = Some ''b'', btn_type = Some ''destructive'', btn_text = Some ''Delete''\<rparr>"
    using T[of _ _ _ _ "\<lparr>btn_id = Some ''b'', btn_type = Some ''destructive'', btn_text = Some '' Delete ''\<rparr>"]
    by (simp add: orEmpty_def t1)
  have k: "WebAppPopupButton \<lparr>btn_id = Some ''b'', btn_type = Some ''ok'', btn_text = None\<rparr>
       = Inr \<lparr>btn_id = Some ''b'', btn_type = Some ''ok'', btn_text = None\<rparr>"
    using T[of _ _ _ _ _ "\<lparr>btn_id = Some ''b'', btn_type = Some ''ok'', btn_text = None\<rparr>"]
    by (simp add: orEmpty_def)
  have k2: "WebAppPopupButton \<lparr>btn_id = None, btn_type = Some ''cancel'', btn_text = Some ''dropped''\<rparr>
       = Inr \<lparr>btn_id = Some [], btn_type = Some ''cancel'', btn_text = None\<rparr>"
    using T[of _ _ _ _ _ "\<lparr>btn_id = None, btn_type = Some ''cancel'', btn_text = Some ''dropped''\<rparr>"]
    by (simp add: orEmpty_def)
  from a b c d k k2 show ?thesis by (simp add: orEmpty_def)
qed

section \<open>The popup\<close>



lemma setTitle_result:
  "setTitle t p = Inl (WebAppPopupParamInvalidError TitleTooLong)
   \<or> (\<exists>p1. setTitle t p = Inr p1 \<and> isOpened p1 = isOpened p \<and> callback (data p1) = callback (data p)
          \<and> message (params (data p1)) = message (params (data p))
          \<and> buttons (params (data p1)) = buttons (params (data p)))"
  by (simp add: setTitle_def Let_def)

lemma setMessage_Inr:
  "setMessage m p = Inr p2 \<Longrightarrow>
     trim (orEmpty m) \<noteq> [] \<and> length (trim (orEmpty m)) \<le> 256
     \<and> p2 = p\<lparr>data := (data p)\<lparr>params := (params (data p))\<lparr>message := Some (trim (orEmpty m))\<rparr>\<rparr>\<rparr>"
  by (auto simp add: setMessage_def Let_def MAX_MESSAGE_LENGTH_def split: if_splits)

lemma setMessage_invalid:
  "trim (orEmpty m) = [] \<or> length (trim (orEmpty m)) > 256 \<Longrightarrow>
     \<exists>r. setMessage m p = Inl (WebAppPopupParamInvalidError r)"
  by (auto simp add: setMessage_def Let_def MAX_MESSAGE_LENGTH_def)

lemma setMessage_error: "setMessage m p = Inl e \<Longrightarrow> \<exists>r. e = WebAppPopupParamInvalidError r"
  by (auto simp add: setMessage_def Let_def split: if_splits)

lemma closeButton:
  "length g \<le> 64 \<Longrightarrow>
   WebAppPopupButton \<lparr>btn_id = Some g, btn_type = Some TYPES_CLOSE, btn_text = None\<rparr>
     = Inr \<lparr>btn_id = Some g, btn_type = Some ''close'', btn_text = None\<rparr>"
  by (simp add: button_defs)

lemma setButtons_omitted:
  "length g \<le> 64 \<Longrightarrow>
   setButtons g ButtonsOmitted p =
     Inr (p\<lparr>data := (data p)\<lparr>params := (params (data p))
            \<lparr>buttons := Some [\<lparr>btn_id = Some g, btn_type = Some ''close'', btn_text = None\<rparr>]\<rparr>\<rparr>\<rparr>)"
  by (simp add: setButtons_def closeButton)

lemma setButtons_bad_count:
  "length bs = 0 \<or> length bs > 3 \<Longrightarrow>
   \<exists>r. setButtons g (ButtonsArray bs) p = Inl (WebAppPopupParamInvalidError r)"
  by (auto simp add: setButtons_def MIN_BUTTONS_def MAX_BUTTONS_def)

lemma Popup_open_hi:
  assumes "length g \<le> 64" "\<not> isOpened p"
  shows "Popup_open g p (JSObject \<lparr>paramTitle = None, paramMessage = Some ''hi'', paramButtons = ButtonsOmitted\<rparr>) cb
    = (None, (setCallback cb (p\<lparr>data := (data p)\<lparr>params := (params (data p))
            \<lparr>message := Some ''hi'',
             buttons := Some [\<lparr>btn_id = Some g, btn_type = Some ''close'', btn_text = None\<rparr>]\<rparr>\<rparr>\<rparr>))
          \<lparr>isOpened := True\<rparr>)"
proof -
  have t: "trim ''hi'' = ''hi''"
    by (simp add: trim_def trimStart_def trimEnd_def isWhiteSpace_def)
  have m: "setMessage (Some ''hi'') p
     = Inr (p\<lparr>data := (data p)\<lparr>params := (params (data p))\<lparr>message := Some ''hi''\<rparr>\<rparr>\<rparr>)"
    by (simp add: setMessage_def orEmpty_def t MAX_MESSAGE_LENGTH_def)
  show ?thesis
    using assms
    by (simp add: Popup_open_def setTitle_def truthy_def m setButtons_omitted)
qed

lemma Popup_open_message_invalid:
  assumes "\<not> isOpened p"
    and "trim (orEmpty (paramMessage pp)) = [] \<or> length (trim (orEmpty (paramMessage pp))) > 256"
  shows "\<exists>r p'. Popup_open g p (JSObject pp) cb = (Some (WebAppPopupParamInvalidError r), p')
            \<and> \<not> isOpened p'"
proof -
  consider (bad) "setTitle (paramTitle pp) p = Inl (WebAppPopupParamInvalidError TitleTooLong)"
    | (ok) p1 where "setTitle (paramTitle pp) p = Inr p1" "isOpened p1 = isOpened p"
    using setTitle_result[of "paramTitle pp" p] by blast
  then show ?thesis
  proof cases
    case bad
    with assms(1) show ?thesis by (simp add: Popup_open_def)
  next
    case ok
    obtain r where "setMessage (paramMessage pp) p1 = Inl (WebAppPopupParamInvalidError r)"
      using setMessage_invalid[OF assms(2)] by blast
    with ok assms(1) show ?thesis by (simp add: Popup_open_def)
  qed
qed

lemma Popup_open_bad_count:
  assumes "\<not> isOpened p" and "paramButtons pp = ButtonsArray bs"
    and "length bs = 0 \<or> length bs > 3"
  shows "\<exists>r p'. Popup_open g p (JSObject pp) cb = (Some (WebAppPopupParamInvalidError r), p')
            \<and> \<not> isOpened p'"
proof -
  consider (bad) "setTitle (paramTitle pp) p = Inl (WebAppPopupParamInvalidError TitleTooLong)"
    | (ok) p1 where "setTitle (paramTitle pp) p = Inr p1" "isOpened p1 = isOpened p"
    using setTitle_result[of "paramTitle pp" p] by blast
  then show ?thesis
  proof cases
    case bad
    with assms(1) show ?thesis by (simp add: Popup_open_def)
  next
    case ok
    show ?thesis
    proof (cases "setMessage (paramMessage pp) p1")
      case (Inl e)
      then obtain r where "e = WebAppPopupParamInvalidError r"
        using setMessage_error by blast
      with Inl ok assms(1) show ?thesis by (simp add: Popup_open_def)
    next
      case (Inr p2)
      then have o2: "isOpened p2 = isOpened p1"
        using setMessage_Inr[OF Inr] by simp
      obtain r where "setButtons g (ButtonsArray bs) p2 = Inl (WebAppPopupParamInvalidError r)"
        using setButtons_bad_count[OF assms(3)] by blast
      with Inr ok o2 assms(1,2) show ?thesis by (simp add: Popup_open_def)
    qed
  qed
qed

lemma Popup_open_opened: "isOpened p \<Longrightarrow> Popup_open g p (JSObject pp) cb = (None, p)"
  by (simp add: Popup_open_def)


text \<open>
  C5. \<open>open({message: "hi"})\<close> on a closed popup, the generated id being at most 64
  characters long, stores exactly one button, of type close, with the generated id, and
  opens the popup. On a closed popup a message whose trimmed form is empty or longer than
  256 characters raises \<open>WebAppPopupParamInvalidError\<close>, and so does a buttons array of 0 or
  of more than 3 entries. On an open popup \<open>open\<close> changes nothing and raises nothing.
\<close>

theorem Popup_open_postconditions:
  "(length g \<le> 64 \<longrightarrow>
      Popup_open g newPopup
         (JSObject \<lparr>paramTitle = None, paramMessage = Some ''hi'', paramButtons = ButtonsOmitted\<rparr>) cb
       = (None, \<lparr>isOpened = True,
                 data = \<lparr>params = \<lparr>title = None, message = Some ''hi'',
                          buttons = Some [\<lparr>btn_id = Some g, btn_type = Some ''close'', btn_text = None\<rparr>]\<rparr>,
                        callback = cb\<rparr>\<rparr>))
   \<and> (length g1 \<le> 64 \<and> \<not> isOpened p1 \<longrightarrow>
        fst (Popup_open g1 p1
              (JSObject \<lparr>paramTitle = None, paramMessage = Some ''hi'', paramButtons = ButtonsOmitted\<rparr>) cb1) = None
        \<and> isOpened (snd (Popup_open g1 p1
              (JSObject \<lparr>paramTitle = None, paramMessage = Some ''hi'', paramButtons = ButtonsOmitted\<rparr>) cb1))
        \<and> buttons (params (data (snd (Popup_open g1 p1
              (JSObject \<lparr>paramTitle = None, paramMessage = Some ''hi'', paramButtons = ButtonsOmitted\<rparr>) cb1))))
            = Some [\<lparr>btn_id = Some g1, btn_type = Some ''close'', btn_text = None\<rparr>])
   \<and> (\<not> isOpened p2
        \<and> (trim (orEmpty (paramMessage pp2)) = [] \<or> length (trim (orEmpty (paramMessage pp2))) > 256)
        \<longrightarrow> (\<exists>r p'. Popup_open g2 p2 (JSObject pp2) cb2 = (Some (WebAppPopupParamInvalidError r), p')
                      \<and> \<not> isOpened p'))
   \<and> (isOpened p3 \<longrightarrow> Popup_open g3 p3 (JSObject pp3) cb3 = (None, p3))
   \<and> (\<not> isOpened p4 \<and> paramButtons pp4 = ButtonsArray bs \<and> (length bs = 0 \<or> length bs > 3)
        \<longrightarrow> (\<exists>r p'. Popup_open g4 p4 (JSObject pp4) cb4 = (Some (WebAppPopupParamInvalidError r), p')
                      \<and> \<not> isOpened p'))"
proof -
  have a: "length g \<le> 64 \<longrightarrow>
      Popup_open g newPopup
         (JSObject \<lparr>paramTitle = None, paramMessage = Some ''hi'', paramButtons = ButtonsOmitted\<rparr>) cb
       = (None, \<lparr>isOpened = True,
                 data = \<lparr>params = \<lparr>title = None, message = Some ''hi'',
                          buttons = Some [\<lparr>btn_id = Some g, btn_type = Some ''close'', btn_text = None\<rparr>]\<rparr>,
                        callback = cb\<rparr>\<rparr>)"
    by (cases cb)
       (simp_all add: Popup_open_hi newPopup_def createInitialState_def emptyParams_def setCallback_def)
  have b: "length g1 \<le> 64 \<and> \<not> isOpened p1 \<longrightarrow>
        fst (Popup_open g1 p1
              (JSObject \<lparr>paramTitle = None, paramMessage = Some ''hi'', paramButtons = ButtonsOmitted\<rparr>) cb1) = None
        \<and> isOpened (snd (Popup_open g1 p1
              (JSObject \<lparr>paramTitle = None, paramMessage = Some ''hi'', paramButtons = ButtonsOmitted\<rparr>) cb1))
        \<and> buttons (params (data (snd (Popup_open g1 p1
              (JSObject \<lparr>paramTitle = None, paramMessage = Some ''hi'', paramButtons = ButtonsOmitted\<rparr>) cb1))))
            = Some [\<lparr>btn_id = Some g1, btn_type = Some ''close'', btn_text = None\<rparr>]"
    by (cases cb1) (simp_all add: Popup_open_hi setCallback_def)
  have c: "\<not> isOpened p2
        \<and> (trim (orEmpty (paramMessage pp2)) = [] \<or> length (trim (orEmpty (paramMessage pp2))) > 256)
        \<longrightarrow> (\<exists>r p'. Popup_open g2 p2 (JSObject pp2) cb2 = (Some (WebAppPopupParamInvalidError r), p')
                      \<and> \<not> isOpened p')"
    using Popup_open_message_invalid by blast
  have d: "isOpened p3 \<longrightarrow> Popup_open g3 p3 (JSObject pp3) cb3 = (None, p3)"
    by (simp add: Popup_open_opened)
  have e: "\<not> isOpened p4 \<and> paramButtons pp4 = ButtonsArray bs \<and> (length bs = 0 \<or> length bs > 3)
        \<longrightarrow> (\<exists>r p'. Popup_open g4 p4 (JSObject pp4) cb4 = (Some (WebAppPopupParamInvalidError r), p')
                      \<and> \<not> isOpened p')"
    using Popup_open_bad_count by blast
  from a b c d e show ?thesis by blast
qed

lemma trim_x257: "length (trim (replicate 257 CHR ''x'')) = 257"
  by code_simp

text \<open>The four cases on a new popup, with the message of 257 times \<open>x\<close>.\<close>

theorem Popup_open_postconditions_witness:
  "length ''aB3xY'' \<le> 64
   \<and> \<not> isOpened newPopup
   \<and> Popup_open ''aB3xY'' newPopup
         (JSObject \<lparr>paramTitle = None, paramMessage = Some ''hi'', paramButtons = ButtonsOmitted\<rparr>)
         (Some (ShowPopupCallback 1))
       = (None, \<lparr>isOpened = True,
                 data = \<lparr>params = \<lparr>title = None, message = Some ''hi'',
                          buttons = Some [\<lparr>btn_id = Some ''aB3xY'', btn_type = Some ''close'', btn_text = None\<rparr>]\<rparr>,
                        callback = Some (ShowPopupCallback 1)\<rparr>\<rparr>)
   \<and> length (trim (orEmpty (paramMessage
          \<lparr>paramTitle = None, paramMessage = Some (replicate 257 CHR ''x''), paramButtons = ButtonsOmitted\<rparr>))) > 256
   \<and> (\<exists>r p'. Popup_open ''aB3xY'' newPopup
         (JSObject \<lparr>paramTitle = None, paramMessage = Some (replicate 257 CHR ''x''), paramButtons = ButtonsOmitted\<rparr>)
         None = (Some (WebAppPopupParamInvalidError r), p') \<and> \<not> isOpened p')
   \<and> isOpened (newPopup\<lparr>isOpened := True\<rparr>)
   \<and> Popup_open ''aB3xY'' (newPopup\<lparr>isOpened := True\<rparr>)
         (JSObject \<lparr>paramTitle = None, paramMessage = Some ''again'', paramButtons = ButtonsOmitted\<rparr>) None
       = (None, newPopup\<lparr>isOpened := True\<rparr>)
   \<and> length ([] :: eventPopupButton list) = 0
   \<and> (\<exists>r p'. Popup_open ''aB3xY'' newPopup
         (JSObject \<lparr>paramTitle = None, paramMessage = Some ''hi'', paramButtons = ButtonsArray []\<rparr>)
         None = (Some (WebAppPopupParamInvalidError r), p') \<and> \<not> isOpened p')"
proof -
  have o: "\<not> isOpened newPopup" by (simp add: newPopup_def)
  have m: "length (trim (orEmpty (paramMessage
          \<lparr>paramTitle = None, paramMessage = Some (replicate 257 CHR ''x''), paramButtons = ButtonsOmitted\<rparr>))) > 256"
    by (simp add: orEmpty_def trim_x257)
  show ?thesis
    using o m
      Popup_open_postconditions[of "''aB3xY''" "Some (ShowPopupCallback 1)" "''aB3xY''" newPopup None
        newPopup
        "\<lparr>paramTitle = None, paramMessage = Some (replicate 257 CHR ''x''), paramButtons = ButtonsOmitted\<rparr>"
        "''aB3xY''" None
        "newPopup\<lparr>isOpened := True\<rparr>" "''aB3xY''"
        "\<lparr>paramTitle = None, paramMessage = Some ''again'', paramButtons = ButtonsOmitted\<rparr>" None
        newPopup
        "\<lparr>paramTitle = None, paramMessage = Some ''hi'', paramButtons = ButtonsArray []\<rparr>"
        "[]" "''aB3xY''" None]
    by simp
qed


lemma Popup_close_closed: "\<not> isOpened (Popup_close p) \<and> data (Popup_close p) = createInitialState
   \<and> Popup_params (Popup_close p) = None \<and> Popup_callback (Popup_close p) = None"
  by (simp add: Popup_close_def Popup_params_def Popup_callback_def createInitialState_def
      emptyParams_def objectKeys_def)

lemma Popup_close_idempotent: "Popup_close (Popup_close p) = Popup_close p"
  by (simp add: Popup_close_def)

text \<open>
  An \<open>open\<close> that returns normally and a \<open>close\<close> both keep the invariant that a popup
  which is not opened has no \<open>params\<close>.
\<close>

lemma Popup_open_returns_opened:
  assumes "Popup_open g p v cb = (None, p')"
  shows "(isOpened p \<and> p' = p) \<or> (\<not> isOpened p \<and> isOpened p')"
  using assms
  by (auto simp add: Popup_open_def split: sum.splits if_splits)

lemma Popup_invariant_kept:
  assumes "isOpened p \<or> Popup_params p = None"
    and "Popup_open g p v cb = (None, p')"
  shows "isOpened p' \<or> Popup_params p' = None"
  using assms Popup_open_returns_opened by blast

text \<open>
  C3. The claim: after any sequence of \<open>open\<close> and \<open>close\<close> calls, also when an \<open>open\<close> has
  raised, a popup that is not opened has \<open>params\<close> \<open>null\<close>. The code at
  \<open>open({title: "T", message: ""})\<close> on a new popup: \<open>#setTitle\<close> has stored the title when
  \<open>#setMessage\<close> throws, so the popup stays closed and \<open>params\<close> is \<open>{title: "T"}\<close>.
\<close>

theorem Popup_open_failure_leaves_params:
  "Popup_open g newPopup
     (JSObject \<lparr>paramTitle = Some ''T'', paramMessage = Some [], paramButtons = ButtonsOmitted\<rparr>) cb
     = (Some (WebAppPopupParamInvalidError MessageRequired),
        \<lparr>isOpened = False,
         data = \<lparr>params = \<lparr>title = Some ''T'', message = None, buttons = None\<rparr>, callback = None\<rparr>\<rparr>)
   \<and> Popup_params
        \<lparr>isOpened = False,
         data = \<lparr>params = \<lparr>title = Some ''T'', message = None, buttons = None\<rparr>, callback = None\<rparr>\<rparr>
     = Some \<lparr>title = Some ''T'', message = None, buttons = None\<rparr>"
proof -
  have t: "trim ''T'' = ''T''"
    by (simp add: trim_def trimStart_def trimEnd_def isWhiteSpace_def)
  have 1: "setTitle (Some ''T'') newPopup
     = Inr \<lparr>isOpened = False,
         data = \<lparr>params = \<lparr>title = Some ''T'', message = None, buttons = None\<rparr>, callback = None\<rparr>\<rparr>"
    by (simp add: setTitle_def truthy_def orEmpty_def t MAX_TITLE_LENGTH_def newPopup_def
        createInitialState_def emptyParams_def)
  have 2: "setMessage (Some []) p = Inl (WebAppPopupParamInvalidError MessageRequired)" for p
    by (simp add: setMessage_def orEmpty_def trim_empty)
  have o: "\<not> isOpened newPopup" by (simp add: newPopup_def)
  show ?thesis
    by (simp add: Popup_open_def o 1 2 Popup_params_def objectKeys_def)
qed

text \<open>The title left behind is part of the next popup, opened without a title.\<close>

lemma Popup_open_stale_title:
  assumes "length g \<le> 64"
  shows "title (params (data (snd (Popup_open g
     \<lparr>isOpened = False,
      data = \<lparr>params = \<lparr>title = Some ''T'', message = None, buttons = None\<rparr>, callback = None\<rparr>\<rparr>
     (JSObject \<lparr>paramTitle = None, paramMessage = Some ''hi'', paramButtons = ButtonsOmitted\<rparr>) cb))))
   = Some ''T''"
  by (cases cb) (simp_all add: Popup_open_hi[OF assms] setCallback_def)


lemma title65: "length (replicate 64 CHR ''a'' @ '' '') = 65
   \<and> trim (replicate 64 CHR ''a'' @ '' '') = replicate 64 CHR ''a''"
  by code_simp

text \<open>
  C4. The claim: a title whose trimmed form is non-empty and at most 64 characters long is
  stored trimmed, without error. The code at the title of 64 times \<open>a\<close> and one space:
  the trimmed title has 64 characters, and \<open>#setTitle\<close>, which compares the length of the
  title as given (65), throws.
\<close>

theorem setTitle_checks_untrimmed_length:
  "length (trim (replicate 64 CHR ''a'' @ '' '')) = 64
   \<and> setTitle (Some (replicate 64 CHR ''a'' @ '' '')) newPopup
       = Inl (WebAppPopupParamInvalidError TitleTooLong)
   \<and> Popup_open g newPopup
       (JSObject \<lparr>paramTitle = Some (replicate 64 CHR ''a'' @ '' ''), paramMessage = Some ''hi'',
                  paramButtons = ButtonsOmitted\<rparr>) cb
       = (Some (WebAppPopupParamInvalidError TitleTooLong), newPopup)"
proof -
  have 1: "setTitle (Some (replicate 64 CHR ''a'' @ '' '')) newPopup
       = Inl (WebAppPopupParamInvalidError TitleTooLong)"
    using title65 by (simp add: setTitle_def truthy_def orEmpty_def MAX_TITLE_LENGTH_def)
  have o: "\<not> isOpened newPopup" by (simp add: newPopup_def)
  show ?thesis
    using title65 by (simp add: Popup_open_def o 1)
qed

text \<open>What \<open>#setTitle\<close> does: the bound is on the title as given, the value stored is trimmed.\<close>

lemma setTitle_cases:
  "setTitle t p =
     (if trim (orEmpty t) = [] then Inr p
      else if length (orEmpty t) > 64 then Inl (WebAppPopupParamInvalidError TitleTooLong)
      else Inr (p\<lparr>data := (data p)\<lparr>params := (params (data p))\<lparr>title := Some (trim (orEmpty t))\<rparr>\<rparr>\<rparr>))"
  by (cases t) (auto simp add: setTitle_def truthy_def orEmpty_def Let_def MAX_TITLE_LENGTH_def trim_empty)

section \<open>showPopup and showConfirm\<close>

lemma paramsGuard_false: "\<not> paramsGuard v"
  by (cases v) (simp_all add: paramsGuard_def)

lemma WebAppPopupButton_error:
  "WebAppPopupButton c = Inl e \<Longrightarrow> e \<noteq> WebAppPopupParamInvalidError ParamsNotObject"
  by (subst (asm) WebAppPopupButton_cases) (auto split: if_splits)

lemma mapButtons_error:
  "mapButtons bs = Inl e \<Longrightarrow> e \<noteq> WebAppPopupParamInvalidError ParamsNotObject"
proof (induction bs)
  case Nil
  then show ?case by simp
next
  case (Cons b bs)
  then show ?case
    by (auto split: sum.splits dest: WebAppPopupButton_error)
qed

lemma setButtons_error:
  "setButtons g bs p = Inl e \<Longrightarrow> e \<noteq> WebAppPopupParamInvalidError ParamsNotObject"
  by (cases bs)
     (auto simp add: setButtons_def split: sum.splits if_splits
       dest: WebAppPopupButton_error mapButtons_error)

lemma Popup_open_error:
  "fst (Popup_open g p v cb) \<noteq> Some (WebAppPopupParamInvalidError ParamsNotObject)"
proof (cases "destructureParams v")
  case (Inl e)
  then have "e = TypeError" by (cases v) simp_all
  with Inl show ?thesis by (simp add: Popup_open_def)
next
  case (Inr pp)
  have t: "setTitle (paramTitle pp) p \<noteq> Inl (WebAppPopupParamInvalidError ParamsNotObject)"
    by (simp add: setTitle_cases)
  have m: "setMessage (paramMessage pp) q \<noteq> Inl (WebAppPopupParamInvalidError ParamsNotObject)" for q
    by (simp add: setMessage_def Let_def)
  show ?thesis
    using Inr t m
    by (auto simp add: Popup_open_def split: sum.splits dest: setButtons_error)
qed

text \<open>
  C9. In \<open>showPopup\<close> the condition \<open>typeof params !== 'object' && params === null\<close> is
  false for every value of \<open>params\<close>, so \<open>showPopup\<close> never raises the error of that branch
  (params must be an object). With a suitable version and no popup opened, \<open>showPopup(null)\<close>
  goes on to \<open>Popup.open\<close>, whose parameter pattern raises a \<open>TypeError\<close> on \<open>null\<close>.
\<close>

theorem showPopup_null_guard_unreachable:
  "\<not> paramsGuard v
   \<and> fst (showPopup g st v cb) \<noteq> Some (WebAppPopupParamInvalidError ParamsNotObject)
   \<and> (isSuitableTo (version st1) ''6.2'' \<and> \<not> isOpened (popup st1) \<longrightarrow>
        Popup_open g1 (popup st1) JSNull cb1 = (Some TypeError, popup st1)
        \<and> showPopup g1 st1 JSNull cb1 = (Some TypeError, st1))"
proof -
  have a: "\<not> paramsGuard v" by (rule paramsGuard_false)
  have b: "fst (showPopup g st v cb) \<noteq> Some (WebAppPopupParamInvalidError ParamsNotObject)"
    using Popup_open_error[of g "popup st" v cb]
    by (auto simp add: showPopup_def paramsGuard_false split: prod.splits option.splits)
  have c: "Popup_open g1 (popup st1) JSNull cb1 = (Some TypeError, popup st1)"
    by (simp add: Popup_open_def)
  have d: "isSuitableTo (version st1) ''6.2'' \<and> \<not> isOpened (popup st1) \<longrightarrow>
        showPopup g1 st1 JSNull cb1 = (Some TypeError, st1)"
    by (simp add: showPopup_def paramsGuard_false c)
  from a b c d show ?thesis by blast
qed

lemma suitable_6_4_6_2: "isSuitableTo ''6.4'' ''6.2''"
  by code_simp

theorem showPopup_null_guard_unreachable_witness:
  "isSuitableTo (version \<lparr>version = ''6.4'', tgWebAppBotInline = None, popup = newPopup,
                           clipboard = [], invoices = [], effects = []\<rparr>) ''6.2''
   \<and> \<not> isOpened (popup \<lparr>version = ''6.4'', tgWebAppBotInline = None, popup = newPopup,
                           clipboard = [], invoices = [], effects = []\<rparr>)
   \<and> showPopup ''aB3xY'' \<lparr>version = ''6.4'', tgWebAppBotInline = None, popup = newPopup,
                           clipboard = [], invoices = [], effects = []\<rparr> JSNull None
       = (Some TypeError, \<lparr>version = ''6.4'', tgWebAppBotInline = None, popup = newPopup,
                           clipboard = [], invoices = [], effects = []\<rparr>)"
  using showPopup_null_guard_unreachable[of JSNull "''aB3xY''" _ None
      "\<lparr>version = ''6.4'', tgWebAppBotInline = None, popup = newPopup,
                           clipboard = [], invoices = [], effects = []\<rparr>" "''aB3xY''" None]
  by (simp add: suitable_6_4_6_2 newPopup_def)

lemma confirmButtons:
  "WebAppPopupButton \<lparr>btn_id = Some OK_BTN_ID, btn_type = Some TYPES_OK, btn_text = None\<rparr>
     = Inr \<lparr>btn_id = Some ''ok'', btn_type = Some ''ok'', btn_text = None\<rparr>"
  "WebAppPopupButton \<lparr>btn_id = Some [], btn_type = Some TYPES_CANCEL, btn_text = None\<rparr>
     = Inr \<lparr>btn_id = Some [], btn_type = Some ''cancel'', btn_text = None\<rparr>"
  "WebAppPopupButton \<lparr>btn_id = Some ''ok'', btn_type = Some ''ok'', btn_text = None\<rparr>
     = Inr \<lparr>btn_id = Some ''ok'', btn_type = Some ''ok'', btn_text = None\<rparr>"
  "WebAppPopupButton \<lparr>btn_id = Some [], btn_type = Some ''cancel'', btn_text = None\<rparr>
     = Inr \<lparr>btn_id = Some [], btn_type = Some ''cancel'', btn_text = None\<rparr>"
  by (simp_all add: button_defs OK_BTN_ID_def)

lemma showConfirm_showPopup:
  "showConfirm g st msg cb =
     showPopup g st
       (JSObject \<lparr>paramTitle = None, paramMessage = Some msg,
                  paramButtons = ButtonsArray
                    [\<lparr>btn_id = Some ''ok'', btn_type = Some ''ok'', btn_text = None\<rparr>,
                     \<lparr>btn_id = Some [], btn_type = Some ''cancel'', btn_text = None\<rparr>]\<rparr>)
       (Some (ConfirmPopupCallback cb))"
  by (simp add: showConfirm_def confirmButtons)

lemma Popup_open_confirm:
  assumes "\<not> isOpened p" and "Popup_open g p
       (JSObject \<lparr>paramTitle = None, paramMessage = Some msg,
                  paramButtons = ButtonsArray
                    [\<lparr>btn_id = Some ''ok'', btn_type = Some ''ok'', btn_text = None\<rparr>,
                     \<lparr>btn_id = Some [], btn_type = Some ''cancel'', btn_text = None\<rparr>]\<rparr>)
       (Some c) = (None, p')"
  shows "isOpened p' \<and> callback (data p') = Some c
     \<and> buttons (params (data p')) =
          Some [\<lparr>btn_id = Some ''ok'', btn_type = Some ''ok'', btn_text = None\<rparr>,
                \<lparr>btn_id = Some [], btn_type = Some ''cancel'', btn_text = None\<rparr>]
     \<and> message (params (data p')) = Some (trim msg)"
  using assms
  by (auto simp add: Popup_open_def setTitle_def truthy_def setMessage_def Let_def orEmpty_def
      setButtons_def MIN_BUTTONS_def MAX_BUTTONS_def confirmButtons setCallback_def
      split: if_splits)

lemma showPopup_success:
  assumes "showPopup g st v c = (None, st1)"
  shows "\<exists>p'. \<not> isOpened (popup st) \<and> Popup_open g (popup st) v c = (None, p') \<and> popup st1 = p'
          \<and> effects st1 = effects st @ [PostEvent ''web_app_open_popup''
                (OpenPopupPayload (case Popup_params p' of None \<Rightarrow> emptyParams | Some d \<Rightarrow> d))]"
  using assms
  by (auto simp add: showPopup_def postEvent_def Let_def split: if_splits prod.splits option.splits)

text \<open>
  C2. After a \<open>showConfirm(message, cb)\<close> that has opened the popup, the popup holds the ok
  button and the cancel button, whose id is the empty string. A \<open>popup_closed\<close> event with
  \<open>button_id\<close> \<open>""\<close> closes the popup and calls nothing: its only effect is the application
  event \<open>popupClosed\<close> with \<open>button_id\<close> \<open>""\<close>. With \<open>button_id\<close> \<open>"ok"\<close> the callback, if given,
  is called with \<open>true\<close> before the application event.
\<close>

theorem showConfirm_cancel_path:
  assumes "showConfirm g st msg cb = (None, st1)"
  shows "isOpened (popup st1)
    \<and> buttons (params (data (popup st1))) =
          Some [\<lparr>btn_id = Some ''ok'', btn_type = Some ''ok'', btn_text = None\<rparr>,
                \<lparr>btn_id = Some [], btn_type = Some ''cancel'', btn_text = None\<rparr>]
    \<and> effects st1 = effects st @ [PostEvent ''web_app_open_popup'' (OpenPopupPayload (params (data (popup st1))))]
    \<and> onPopupClosed st1 (Some []) =
         st1\<lparr>popup := Popup_close (popup st1),
             effects := effects st1 @
               [CallEventCallbacks ''webview:popupClosed'' (Some (PopupClosedParams (Some [])))]\<rparr>
    \<and> \<not> isOpened (popup (onPopupClosed st1 (Some [])))
    \<and> onPopupClosed st1 (Some ''ok'') =
         st1\<lparr>popup := Popup_close (popup st1),
             effects := effects st1 @ (case cb of None \<Rightarrow> [] | Some f \<Rightarrow> [Call f (BoolArg True)]) @
               [CallEventCallbacks ''webview:popupClosed'' (Some (PopupClosedParams (Some ''ok'')))]\<rparr>"
proof -
  let ?bs = "[\<lparr>btn_id = Some ''ok'', btn_type = Some ''ok'', btn_text = None\<rparr>,
              \<lparr>btn_id = Some [], btn_type = Some ''cancel'', btn_text = None\<rparr>]"
  let ?v = "JSObject \<lparr>paramTitle = None, paramMessage = Some msg, paramButtons = ButtonsArray ?bs\<rparr>"
  from assms have sp: "showPopup g st ?v (Some (ConfirmPopupCallback cb)) = (None, st1)"
    by (simp add: showConfirm_showPopup)
  from showPopup_success[OF sp] obtain p' where
    cl: "\<not> isOpened (popup st)" and po: "Popup_open g (popup st) ?v (Some (ConfirmPopupCallback cb)) = (None, p')"
    and pp: "popup st1 = p'"
    and ef: "effects st1 = effects st @ [PostEvent ''web_app_open_popup''
                (OpenPopupPayload (case Popup_params p' of None \<Rightarrow> emptyParams | Some d \<Rightarrow> d))]"
    by blast
  from Popup_open_confirm[OF cl po] have
    op: "isOpened p'" and cbk: "callback (data p') = Some (ConfirmPopupCallback cb)"
    and bs: "buttons (params (data p')) = Some ?bs"
    by simp_all
  have prm: "Popup_params p' = Some (params (data p'))"
    using bs by (simp add: Popup_params_def objectKeys_def)
  have 1: "isOpened (popup st1)" using op pp by simp
  have 2: "buttons (params (data (popup st1))) = Some ?bs" using bs pp by simp
  have 3: "effects st1 = effects st @
             [PostEvent ''web_app_open_popup'' (OpenPopupPayload (params (data (popup st1))))]"
    using ef prm pp by simp
  have 4: "onPopupClosed st1 (Some []) =
         st1\<lparr>popup := Popup_close (popup st1),
             effects := effects st1 @
               [CallEventCallbacks ''webview:popupClosed'' (Some (PopupClosedParams (Some [])))]\<rparr>"
    using 1 by (simp add: onPopupClosed_def truthy_def receiveWebViewEvent_def Let_def)
  have 5: "\<not> isOpened (popup (onPopupClosed st1 (Some [])))"
    by (simp add: 4 Popup_close_def)
  have 6: "onPopupClosed st1 (Some ''ok'') =
         st1\<lparr>popup := Popup_close (popup st1),
             effects := effects st1 @ (case cb of None \<Rightarrow> [] | Some f \<Rightarrow> [Call f (BoolArg True)]) @
               [CallEventCallbacks ''webview:popupClosed'' (Some (PopupClosedParams (Some ''ok'')))]\<rparr>"
    using 1 cbk pp
    by (cases cb)
       (simp_all add: onPopupClosed_def truthy_def orEmpty_def receiveWebViewEvent_def Let_def
         Popup_callback_def callPopupCallback_def callOptional_def OK_BTN_ID_def)
  from 1 2 3 4 5 6 show ?thesis by blast
qed

text \<open>\<open>showConfirm("Proceed?", cb)\<close> at version 6.4.\<close>

lemma showConfirm_example:
  "showConfirm ''aB3xY'' (appAtVersion ''6.4'' None) ''Proceed?'' (Some 7) =
     (None,
      \<lparr>version = ''6.4'', tgWebAppBotInline = None,
       popup = \<lparr>isOpened = True,
                data = \<lparr>params = \<lparr>title = None, message = Some ''Proceed?'',
                          buttons = Some [\<lparr>btn_id = Some ''ok'', btn_type = Some ''ok'', btn_text = None\<rparr>,
                                          \<lparr>btn_id = Some [], btn_type = Some ''cancel'', btn_text = None\<rparr>]\<rparr>,
                        callback = Some (ConfirmPopupCallback (Some 7))\<rparr>\<rparr>,
       clipboard = [], invoices = [],
       effects = [PostEvent ''web_app_open_popup''
          (OpenPopupPayload \<lparr>title = None, message = Some ''Proceed?'',
                          buttons = Some [\<lparr>btn_id = Some ''ok'', btn_type = Some ''ok'', btn_text = None\<rparr>,
                                          \<lparr>btn_id = Some [], btn_type = Some ''cancel'', btn_text = None\<rparr>]\<rparr>)]\<rparr>)"
  by code_simp

theorem showConfirm_cancel_path_witness:
  "fst (showConfirm ''aB3xY'' (appAtVersion ''6.4'' None) ''Proceed?'' (Some 7)) = None
   \<and> effects (onPopupClosed (snd (showConfirm ''aB3xY'' (appAtVersion ''6.4'' None) ''Proceed?'' (Some 7)))
        (Some []))
      = [PostEvent ''web_app_open_popup''
          (OpenPopupPayload \<lparr>title = None, message = Some ''Proceed?'',
                          buttons = Some [\<lparr>btn_id = Some ''ok'', btn_type = Some ''ok'', btn_text = None\<rparr>,
                                          \<lparr>btn_id = Some [], btn_type = Some ''cancel'', btn_text = None\<rparr>]\<rparr>),
         CallEventCallbacks ''webview:popupClosed'' (Some (PopupClosedParams (Some [])))]
   \<and> \<not> isOpened (popup (onPopupClosed
        (snd (showConfirm ''aB3xY'' (appAtVersion ''6.4'' None) ''Proceed?'' (Some 7))) (Some [])))
   \<and> effects (onPopupClosed (snd (showConfirm ''aB3xY'' (appAtVersion ''6.4'' None) ''Proceed?'' (Some 7)))
        (Some ''ok''))
      = [PostEvent ''web_app_open_popup''
          (OpenPopupPayload \<lparr>title = None, message = Some ''Proceed?'',
                          buttons = Some [\<lparr>btn_id = Some ''ok'', btn_type = Some ''ok'', btn_text = None\<rparr>,
                                          \<lparr>btn_id = Some [], btn_type = Some ''cancel'', btn_text = None\<rparr>]\<rparr>),
         Call 7 (BoolArg True),
         CallEventCallbacks ''webview:popupClosed'' (Some (PopupClosedParams (Some ''ok'')))]"
proof -
  let ?S = "snd (showConfirm ''aB3xY'' (appAtVersion ''6.4'' None) ''Proceed?'' (Some 7))"
  have h: "showConfirm ''aB3xY'' (appAtVersion ''6.4'' None) ''Proceed?'' (Some 7) = (None, ?S)"
    by (simp add: showConfirm_example)
  note T = showConfirm_cancel_path[OF h]
  have e: "effects ?S = [PostEvent ''web_app_open_popup''
          (OpenPopupPayload \<lparr>title = None, message = Some ''Proceed?'',
                          buttons = Some [\<lparr>btn_id = Some ''ok'', btn_type = Some ''ok'', btn_text = None\<rparr>,
                                          \<lparr>btn_id = Some [], btn_type = Some ''cancel'', btn_text = None\<rparr>]\<rparr>)]"
    by (simp add: showConfirm_example)
  have c: "onPopupClosed ?S (Some []) =
         ?S\<lparr>popup := Popup_close (popup ?S),
             effects := effects ?S @
               [CallEventCallbacks ''webview:popupClosed'' (Some (PopupClosedParams (Some [])))]\<rparr>"
    using T by blast
  have n: "\<not> isOpened (popup (onPopupClosed ?S (Some [])))"
    using T by blast
  have k: "onPopupClosed ?S (Some ''ok'') =
         ?S\<lparr>popup := Popup_close (popup ?S),
             effects := effects ?S @ (case Some 7 of None \<Rightarrow> [] | Some f \<Rightarrow> [Call f (BoolArg True)]) @
               [CallEventCallbacks ''webview:popupClosed'' (Some (PopupClosedParams (Some ''ok'')))]\<rparr>"
    using T by blast
  have 1: "fst (showConfirm ''aB3xY'' (appAtVersion ''6.4'' None) ''Proceed?'' (Some 7)) = None"
    by (simp add: showConfirm_example)
  have 2: "effects (onPopupClosed ?S (Some [])) = [PostEvent ''web_app_open_popup''
          (OpenPopupPayload \<lparr>title = None, message = Some ''Proceed?'',
                          buttons = Some [\<lparr>btn_id = Some ''ok'', btn_type = Some ''ok'', btn_text = None\<rparr>,
                                          \<lparr>btn_id = Some [], btn_type = Some ''cancel'', btn_text = None\<rparr>]\<rparr>),
         CallEventCallbacks ''webview:popupClosed'' (Some (PopupClosedParams (Some [])))]"
    by (simp only: c) (simp add: e)
  have 3: "effects (onPopupClosed ?S (Some ''ok'')) = [PostEvent ''web_app_open_popup''
          (OpenPopupPayload \<lparr>title = None, message = Some ''Proceed?'',
                          buttons = Some [\<lparr>btn_id = Some ''ok'', btn_type = Some ''ok'', btn_text = None\<rparr>,
                                          \<lparr>btn_id = Some [], btn_type = Some ''cancel'', btn_text = None\<rparr>]\<rparr>),
         Call 7 (BoolArg True),
         CallEventCallbacks ''webview:popupClosed'' (Some (PopupClosedParams (Some ''ok'')))]"
    by (simp only: k) (simp add: e)
  from 1 2 n 3 show ?thesis by blast
qed

section \<open>Pending requests\<close>

lemma onClipboardTextReceived_unknown:
  "\<not> truthy rq \<or> map_of (clipboard st) (orEmpty rq) = None \<Longrightarrow>
   onClipboardTextReceived st rq d = st"
  by (auto simp add: onClipboardTextReceived_def hasRequest_def)

lemma onClipboardTextReceived_known:
  assumes "rid \<noteq> []" "map_of (clipboard st) rid = Some c"
  shows "onClipboardTextReceived st (Some rid) d =
     receiveWebViewEvent ''clipboardTextReceived'' (Some (ClipboardTextReceivedParams d))
       (callOptional c (NullableStringArg d) (st\<lparr>clipboard := AList.delete rid (clipboard st)\<rparr>))"
  using assms
  by (simp add: onClipboardTextReceived_def hasRequest_def getRequest_def removeRequest_def
      truthy_def orEmpty_def Let_def)

lemma clipboard_after_call:
  "clipboard (receiveWebViewEvent n a (callOptional c x st)) = clipboard st"
  by (cases c) (simp_all add: receiveWebViewEvent_def callOptional_def)

lemma effects_after_call:
  "effects (receiveWebViewEvent n a (callOptional c x st)) =
     effects st @ (case c of None \<Rightarrow> [] | Some f \<Rightarrow> [Call f x]) @ [CallEventCallbacks (''webview:'' @ n) a]"
  by (cases c) (simp_all add: receiveWebViewEvent_def callOptional_def)

lemma invoices_after_call:
  "invoices (receiveWebViewEvent n a (callOptional c x st)) = invoices st"
  by (cases c) (simp_all add: receiveWebViewEvent_def callOptional_def)

lemma onInvoiceClosed_unknown:
  "\<not> truthy sl \<or> map_of (invoices st) (orEmpty sl) = None \<Longrightarrow>
   onInvoiceClosed st sl status = (None, st)"
  by (auto simp add: onInvoiceClosed_def Invoices_has_def)

lemma onInvoiceClosed_known:
  assumes "slug \<noteq> []" "map_of (invoices st) slug = Some entry"
  shows "onInvoiceClosed st (Some slug) status =
     (None, receiveWebViewEvent ''invoiceClosed'' (Some (InvoiceClosedParams (invoiceUrl entry) status))
       (callOptional (invoiceCallback entry) (StringArg status)
          (st\<lparr>invoices := AList.delete slug (invoices st)\<rparr>)))"
  using assms
  by (simp add: onInvoiceClosed_def Invoices_has_def Invoices_remove_def
      truthy_def orEmpty_def Let_def)

text \<open>
  C7. A \<open>clipboard_text_received\<close> or \<open>invoice_closed\<close> event whose id or slug is absent,
  empty, unknown or already consumed changes nothing and raises nothing. For a pending id
  the handler removes the entry, then calls the stored callback (if there is one) in the
  state without the entry, then emits the application event; a second delivery for the
  same id finds no entry and changes nothing, so the callback is called once.
\<close>

theorem pending_response_exactly_once:
  "(\<not> truthy rq \<or> map_of (clipboard st) (orEmpty rq) = None \<longrightarrow>
      onClipboardTextReceived st rq d = st)
   \<and> (rid \<noteq> [] \<and> map_of (clipboard st1) rid = Some c \<longrightarrow>
        onClipboardTextReceived st1 (Some rid) d1 =
          receiveWebViewEvent ''clipboardTextReceived'' (Some (ClipboardTextReceivedParams d1))
            (callOptional c (NullableStringArg d1) (st1\<lparr>clipboard := AList.delete rid (clipboard st1)\<rparr>))
        \<and> map_of (clipboard (onClipboardTextReceived st1 (Some rid) d1)) rid = None
        \<and> effects (onClipboardTextReceived st1 (Some rid) d1) =
            effects st1 @ (case c of None \<Rightarrow> [] | Some f \<Rightarrow> [Call f (NullableStringArg d1)])
              @ [CallEventCallbacks ''webview:clipboardTextReceived'' (Some (ClipboardTextReceivedParams d1))]
        \<and> onClipboardTextReceived (onClipboardTextReceived st1 (Some rid) d1) (Some rid) d2
            = onClipboardTextReceived st1 (Some rid) d1)
   \<and> (\<not> truthy sl \<or> map_of (invoices st2) (orEmpty sl) = None \<longrightarrow>
        onInvoiceClosed st2 sl status2 = (None, st2))
   \<and> (slug \<noteq> [] \<and> map_of (invoices st3) slug = Some entry \<longrightarrow>
        onInvoiceClosed st3 (Some slug) status3 =
          (None, receiveWebViewEvent ''invoiceClosed'' (Some (InvoiceClosedParams (invoiceUrl entry) status3))
             (callOptional (invoiceCallback entry) (StringArg status3)
                (st3\<lparr>invoices := AList.delete slug (invoices st3)\<rparr>)))
        \<and> map_of (invoices (snd (onInvoiceClosed st3 (Some slug) status3))) slug = None
        \<and> effects (snd (onInvoiceClosed st3 (Some slug) status3)) =
            effects st3 @ (case invoiceCallback entry of None \<Rightarrow> [] | Some f \<Rightarrow> [Call f (StringArg status3)])
              @ [CallEventCallbacks ''webview:invoiceClosed'' (Some (InvoiceClosedParams (invoiceUrl entry) status3))]
        \<and> onInvoiceClosed (snd (onInvoiceClosed st3 (Some slug) status3)) (Some slug) status4
            = (None, snd (onInvoiceClosed st3 (Some slug) status3)))"
proof -
  have a: "\<not> truthy rq \<or> map_of (clipboard st) (orEmpty rq) = None \<longrightarrow>
      onClipboardTextReceived st rq d = st"
    using onClipboardTextReceived_unknown by blast
  have b: "rid \<noteq> [] \<and> map_of (clipboard st1) rid = Some c \<longrightarrow>
        onClipboardTextReceived st1 (Some rid) d1 =
          receiveWebViewEvent ''clipboardTextReceived'' (Some (ClipboardTextReceivedParams d1))
            (callOptional c (NullableStringArg d1) (st1\<lparr>clipboard := AList.delete rid (clipboard st1)\<rparr>))
        \<and> map_of (clipboard (onClipboardTextReceived st1 (Some rid) d1)) rid = None
        \<and> effects (onClipboardTextReceived st1 (Some rid) d1) =
            effects st1 @ (case c of None \<Rightarrow> [] | Some f \<Rightarrow> [Call f (NullableStringArg d1)])
              @ [CallEventCallbacks ''webview:clipboardTextReceived'' (Some (ClipboardTextReceivedParams d1))]
        \<and> onClipboardTextReceived (onClipboardTextReceived st1 (Some rid) d1) (Some rid) d2
            = onClipboardTextReceived st1 (Some rid) d1"
  proof
    assume h: "rid \<noteq> [] \<and> map_of (clipboard st1) rid = Some c"
    then have k: "onClipboardTextReceived st1 (Some rid) d1 =
          receiveWebViewEvent ''clipboardTextReceived'' (Some (ClipboardTextReceivedParams d1))
            (callOptional c (NullableStringArg d1) (st1\<lparr>clipboard := AList.delete rid (clipboard st1)\<rparr>))"
      using onClipboardTextReceived_known by blast
    have gone: "map_of (clipboard (onClipboardTextReceived st1 (Some rid) d1)) rid = None"
      by (simp add: k clipboard_after_call AList.delete_conv')
    have eff: "effects (onClipboardTextReceived st1 (Some rid) d1) =
            effects st1 @ (case c of None \<Rightarrow> [] | Some f \<Rightarrow> [Call f (NullableStringArg d1)])
              @ [CallEventCallbacks ''webview:clipboardTextReceived'' (Some (ClipboardTextReceivedParams d1))]"
      by (simp add: k effects_after_call)
    have again: "onClipboardTextReceived (onClipboardTextReceived st1 (Some rid) d1) (Some rid) d2
            = onClipboardTextReceived st1 (Some rid) d1"
      using gone by (simp add: onClipboardTextReceived_unknown orEmpty_def)
    from k gone eff again show "onClipboardTextReceived st1 (Some rid) d1 =
          receiveWebViewEvent ''clipboardTextReceived'' (Some (ClipboardTextReceivedParams d1))
            (callOptional c (NullableStringArg d1) (st1\<lparr>clipboard := AList.delete rid (clipboard st1)\<rparr>))
        \<and> map_of (clipboard (onClipboardTextReceived st1 (Some rid) d1)) rid = None
        \<and> effects (onClipboardTextReceived st1 (Some rid) d1) =
            effects st1 @ (case c of None \<Rightarrow> [] | Some f \<Rightarrow> [Call f (NullableStringArg d1)])
              @ [CallEventCallbacks ''webview:clipboardTextReceived'' (Some (ClipboardTextReceivedParams d1))]
        \<and> onClipboardTextReceived (onClipboardTextReceived st1 (Some rid) d1) (Some rid) d2
            = onClipboardTextReceived st1 (Some rid) d1"
      by blast
  qed
  have c: "\<not> truthy sl \<or> map_of (invoices st2) (orEmpty sl) = None \<longrightarrow>
        onInvoiceClosed st2 sl status2 = (None, st2)"
    using onInvoiceClosed_unknown by blast
  have d: "slug \<noteq> [] \<and> map_of (invoices st3) slug = Some entry \<longrightarrow>
        onInvoiceClosed st3 (Some slug) status3 =
          (None, receiveWebViewEvent ''invoiceClosed'' (Some (InvoiceClosedParams (invoiceUrl entry) status3))
             (callOptional (invoiceCallback entry) (StringArg status3)
                (st3\<lparr>invoices := AList.delete slug (invoices st3)\<rparr>)))
        \<and> map_of (invoices (snd (onInvoiceClosed st3 (Some slug) status3))) slug = None
        \<and> effects (snd (onInvoiceClosed st3 (Some slug) status3)) =
            effects st3 @ (case invoiceCallback entry of None \<Rightarrow> [] | Some f \<Rightarrow> [Call f (StringArg status3)])
              @ [CallEventCallbacks ''webview:invoiceClosed'' (Some (InvoiceClosedParams (invoiceUrl entry) status3))]
        \<and> onInvoiceClosed (snd (onInvoiceClosed st3 (Some slug) status3)) (Some slug) status4
            = (None, snd (onInvoiceClosed st3 (Some slug) status3))"
  proof
    assume h: "slug \<noteq> [] \<and> map_of (invoices st3) slug = Some entry"
    then have k: "onInvoiceClosed st3 (Some slug) status3 =
          (None, receiveWebViewEvent ''invoiceClosed'' (Some (InvoiceClosedParams (invoiceUrl entry) status3))
             (callOptional (invoiceCallback entry) (StringArg status3)
                (st3\<lparr>invoices := AList.delete slug (invoices st3)\<rparr>)))"
      using onInvoiceClosed_known by blast
    have gone: "map_of (invoices (snd (onInvoiceClosed st3 (Some slug) status3))) slug = None"
      by (simp add: k invoices_after_call AList.delete_conv')
    have eff: "effects (snd (onInvoiceClosed st3 (Some slug) status3)) =
            effects st3 @ (case invoiceCallback entry of None \<Rightarrow> [] | Some f \<Rightarrow> [Call f (StringArg status3)])
              @ [CallEventCallbacks ''webview:invoiceClosed'' (Some (InvoiceClosedParams (invoiceUrl entry) status3))]"
      by (simp add: k effects_after_call)
    have again: "onInvoiceClosed (snd (onInvoiceClosed st3 (Some slug) status3)) (Some slug) status4
            = (None, snd (onInvoiceClosed st3 (Some slug) status3))"
      using gone by (simp add: onInvoiceClosed_unknown orEmpty_def)
    from k gone eff again show "onInvoiceClosed st3 (Some slug) status3 =
          (None, receiveWebViewEvent ''invoiceClosed'' (Some (InvoiceClosedParams (invoiceUrl entry) status3))
             (callOptional (invoiceCallback entry) (StringArg status3)
                (st3\<lparr>invoices := AList.delete slug (invoices st3)\<rparr>)))
        \<and> map_of (invoices (snd (onInvoiceClosed st3 (Some slug) status3))) slug = None
        \<and> effects (snd (onInvoiceClosed st3 (Some slug) status3)) =
            effects st3 @ (case invoiceCallback entry of None \<Rightarrow> [] | Some f \<Rightarrow> [Call f (StringArg status3)])
              @ [CallEventCallbacks ''webview:invoiceClosed'' (Some (InvoiceClosedParams (invoiceUrl entry) status3))]
        \<and> onInvoiceClosed (snd (onInvoiceClosed st3 (Some slug) status3)) (Some slug) status4
            = (None, snd (onInvoiceClosed st3 (Some slug) status3))"
      by blast
  qed
  from a b c d show ?thesis by blast
qed


text \<open>One pending clipboard request and one open invoice, each answered twice.\<close>

theorem pending_response_exactly_once_witness:
  "map_of (clipboard ((appAtVersion ''6.4'' None)\<lparr>clipboard := [(''r1'', Some 3)]\<rparr>)) (orEmpty (Some ''zz'')) = None
   \<and> onClipboardTextReceived ((appAtVersion ''6.4'' None)\<lparr>clipboard := [(''r1'', Some 3)]\<rparr>)
         (Some ''zz'') (Some ''text'')
       = (appAtVersion ''6.4'' None)\<lparr>clipboard := [(''r1'', Some 3)]\<rparr>
   \<and> map_of (clipboard ((appAtVersion ''6.4'' None)\<lparr>clipboard := [(''r1'', Some 3)]\<rparr>)) ''r1'' = Some (Some 3)
   \<and> effects (onClipboardTextReceived
        (onClipboardTextReceived ((appAtVersion ''6.4'' None)\<lparr>clipboard := [(''r1'', Some 3)]\<rparr>)
           (Some ''r1'') (Some ''text''))
        (Some ''r1'') (Some ''text''))
       = [Call 3 (NullableStringArg (Some ''text'')),
          CallEventCallbacks ''webview:clipboardTextReceived''
            (Some (ClipboardTextReceivedParams (Some ''text'')))]
   \<and> map_of (invoices ((appAtVersion ''6.4'' None)
          \<lparr>invoices := [(''abc'', \<lparr>invoiceUrl = ''https://t.me/$abc'', invoiceCallback = Some 4\<rparr>)]\<rparr>))
        (orEmpty (Some ''zz'')) = None
   \<and> onInvoiceClosed ((appAtVersion ''6.4'' None)
          \<lparr>invoices := [(''abc'', \<lparr>invoiceUrl = ''https://t.me/$abc'', invoiceCallback = Some 4\<rparr>)]\<rparr>)
        (Some ''zz'') ''paid''
       = (None, (appAtVersion ''6.4'' None)
          \<lparr>invoices := [(''abc'', \<lparr>invoiceUrl = ''https://t.me/$abc'', invoiceCallback = Some 4\<rparr>)]\<rparr>)
   \<and> map_of (invoices ((appAtVersion ''6.4'' None)
          \<lparr>invoices := [(''abc'', \<lparr>invoiceUrl = ''https://t.me/$abc'', invoiceCallback = Some 4\<rparr>)]\<rparr>))
        ''abc'' = Some \<lparr>invoiceUrl = ''https://t.me/$abc'', invoiceCallback = Some 4\<rparr>
   \<and> effects (snd (onInvoiceClosed
        (snd (onInvoiceClosed ((appAtVersion ''6.4'' None)
          \<lparr>invoices := [(''abc'', \<lparr>invoiceUrl = ''https://t.me/$abc'', invoiceCallback = Some 4\<rparr>)]\<rparr>)
           (Some ''abc'') ''paid''))
        (Some ''abc'') ''paid''))
       = [Call 4 (StringArg ''paid''),
          CallEventCallbacks ''webview:invoiceClosed''
            (Some (InvoiceClosedParams ''https://t.me/$abc'' ''paid''))]"
proof -
  let ?A = "(appAtVersion ''6.4'' None)\<lparr>clipboard := [(''r1'', Some 3)]\<rparr>"
  let ?B = "(appAtVersion ''6.4'' None)
          \<lparr>invoices := [(''abc'', \<lparr>invoiceUrl = ''https://t.me/$abc'', invoiceCallback = Some 4\<rparr>)]\<rparr>"
  let ?E = "\<lparr>invoiceUrl = ''https://t.me/$abc'', invoiceCallback = Some 4\<rparr>"
  note T = pending_response_exactly_once[of "Some ''zz''" ?A "Some ''text''"
      "''r1''" ?A "Some 3" "Some ''text''" "Some ''text''"
      "Some ''zz''" ?B "''paid''" "''abc''" ?B ?E "''paid''" "''paid''"]
  have h1: "map_of (clipboard ?A) (orEmpty (Some ''zz'')) = None"
    by (simp add: appAtVersion_def orEmpty_def)
  have h2: "''r1'' \<noteq> [] \<and> map_of (clipboard ?A) ''r1'' = Some (Some 3)"
    by (simp add: appAtVersion_def)
  have h3: "map_of (invoices ?B) (orEmpty (Some ''zz'')) = None"
    by (simp add: appAtVersion_def orEmpty_def)
  have h4: "''abc'' \<noteq> [] \<and> map_of (invoices ?B) ''abc'' = Some ?E"
    by (simp add: appAtVersion_def)
  have r1: "onClipboardTextReceived ?A (Some ''zz'') (Some ''text'') = ?A"
    using T h1 by blast
  have r2: "onClipboardTextReceived (onClipboardTextReceived ?A (Some ''r1'') (Some ''text''))
              (Some ''r1'') (Some ''text'')
            = onClipboardTextReceived ?A (Some ''r1'') (Some ''text'')"
    using T h2 by blast
  have r3: "effects (onClipboardTextReceived ?A (Some ''r1'') (Some ''text'')) =
            effects ?A @ (case Some 3 of None \<Rightarrow> [] | Some f \<Rightarrow> [Call f (NullableStringArg (Some ''text''))])
              @ [CallEventCallbacks ''webview:clipboardTextReceived''
                   (Some (ClipboardTextReceivedParams (Some ''text'')))]"
    using T h2 by blast
  have r4: "onInvoiceClosed ?B (Some ''zz'') ''paid'' = (None, ?B)"
    using T h3 by blast
  have r5: "onInvoiceClosed (snd (onInvoiceClosed ?B (Some ''abc'') ''paid'')) (Some ''abc'') ''paid''
            = (None, snd (onInvoiceClosed ?B (Some ''abc'') ''paid''))"
    using T h4 by blast
  have r6: "effects (snd (onInvoiceClosed ?B (Some ''abc'') ''paid'')) =
            effects ?B @ (case invoiceCallback ?E of None \<Rightarrow> [] | Some f \<Rightarrow> [Call f (StringArg ''paid'')])
              @ [CallEventCallbacks ''webview:invoiceClosed''
                   (Some (InvoiceClosedParams (invoiceUrl ?E) ''paid''))]"
    using T h4 by blast
  have e1: "effects ?A = []" and e2: "effects ?B = []"
    by (simp_all add: appAtVersion_def)
  show ?thesis
    using h1 h2 h3 h4 r1 r4 by (simp add: r2 r3 r5 r6 e1 e2)
qed

section \<open>openInvoice\<close>

text \<open>
  \<open>openInvoice\<close> of WebApp.ts checks the version after the url: below 6.1 it raises and
  leaves the state as it was, with \<open>WebAppMethodUnsupported\<close> for a valid invoice url.
\<close>

lemma WebApp_openInvoice_gate:
  assumes "\<not> versionAtLeast (webAppVersion st) ''6.1''"
  shows "fst (WebApp_openInvoice parseUrl st url cb) \<in>
           {Some TypeError, Some WebAppInvoiceUrlInvalid, Some WebAppMethodUnsupported}
         \<and> snd (WebApp_openInvoice parseUrl st url cb) = st"
  using assms
  by (auto simp add: WebApp_openInvoice_def split: option.splits)

lemma WebApp_openInvoice_unsupported:
  assumes "\<not> versionAtLeast (webAppVersion st) ''6.1''"
    and "parseUrl url = Some u"
    and "protocol u = ''http:'' \<or> protocol u = ''https:''"
    and "hostname u = ''t.me''"
    and "matchInvoicePath (pathname u) = Some slug"
  shows "WebApp_openInvoice parseUrl st url cb = (Some WebAppMethodUnsupported, st)"
  using assms
  by (auto simp add: WebApp_openInvoice_def)

text \<open>
  C8. The claim: below version 6.1 \<open>openInvoice\<close> raises the unsupported-method error and
  posts nothing. \<open>TelegramWebApp.openInvoice\<close> has no version check: at any version, also
  one below 6.1, a url for which \<open>Invoices.create\<close> returns a slug is saved as a pending
  invoice and \<open>web_app_open_invoice\<close> is posted.
\<close>

theorem openInvoice_no_version_gate:
  "\<not> isSuitableTo (version st) ''6.1'' \<and> create url = Inr slug \<longrightarrow>
     openInvoice create st url cb =
       (None, st\<lparr>invoices := AList.update slug \<lparr>invoiceUrl = url, invoiceCallback = cb\<rparr> (invoices st),
                 effects := effects st @ [PostEvent ''web_app_open_invoice'' (OpenInvoicePayload slug)]\<rparr>)"
  by (simp add: openInvoice_def Invoices_save_def postEvent_def)

lemma unsuitable_6_0_6_1: "\<not> isSuitableTo ''6.0'' ''6.1''"
  by code_simp

theorem openInvoice_no_version_gate_witness:
  "\<not> isSuitableTo (version (appAtVersion ''6.0'' None)) ''6.1''
   \<and> openInvoice (\<lambda>u. Inr ''abc'') (appAtVersion ''6.0'' None) ''https://t.me/$abc'' (Some 4) =
      (None, \<lparr>version = ''6.0'', tgWebAppBotInline = None, popup = newPopup, clipboard = [],
              invoices = [(''abc'', \<lparr>invoiceUrl = ''https://t.me/$abc'', invoiceCallback = Some 4\<rparr>)],
              effects = [PostEvent ''web_app_open_invoice'' (OpenInvoicePayload ''abc'')]\<rparr>)"
proof -
  have v: "\<not> isSuitableTo (version (appAtVersion ''6.0'' None)) ''6.1''"
    by (simp add: appAtVersion_def unsuitable_6_0_6_1)
  have c: "(\<lambda>u::string. (Inr ''abc'' :: error + string)) ''https://t.me/$abc'' = Inr ''abc''"
    by simp
  from openInvoice_no_version_gate[of "appAtVersion ''6.0'' None" "\<lambda>u. Inr ''abc''"
      "''https://t.me/$abc''" "''abc''" "Some 4"] v c
  have "openInvoice (\<lambda>u. Inr ''abc'') (appAtVersion ''6.0'' None) ''https://t.me/$abc'' (Some 4) =
       (None, (appAtVersion ''6.0'' None)
          \<lparr>invoices := AList.update ''abc'' \<lparr>invoiceUrl = ''https://t.me/$abc'', invoiceCallback = Some 4\<rparr>
                         (invoices (appAtVersion ''6.0'' None)),
           effects := effects (appAtVersion ''6.0'' None) @
                        [PostEvent ''web_app_open_invoice'' (OpenInvoicePayload ''abc'')]\<rparr>)"
    by blast
  with v show ?thesis by (simp add: appAtVersion_def)
qed

section \<open>switchInlineQuery\<close>

lemma set_foldl_setAdd: "set (foldl setAdd acc xs) = set acc \<union> set xs"
  by (induction xs arbitrary: acc) (auto simp add: setAdd_def)

lemma distinct_foldl_setAdd: "distinct acc \<Longrightarrow> distinct (foldl setAdd acc xs)"
  by (induction xs arbitrary: acc) (auto simp add: setAdd_def)

lemma set_newSet: "set (newSet xs) = set xs"
  by (simp add: newSet_def set_foldl_setAdd)

lemma distinct_newSet: "distinct (newSet xs)"
  by (simp add: newSet_def distinct_foldl_setAdd)

lemma newSet_snoc: "newSet (xs @ [x]) = (if x \<in> set xs then newSet xs else newSet xs @ [x])"
  using set_newSet[of xs] by (simp add: newSet_def setAdd_def)

text \<open>The elements are kept at their first occurrence, in order.\<close>

lemma newSet_first_occurrences: "newSet xs = rev (remdups (rev xs))"
  by (induction xs rule: rev_induct) (simp_all add: newSet_snoc, simp add: newSet_def)

lemma q257: "length (trim (replicate 257 CHR ''q'')) = 257"
  by code_simp

lemma suitable_6_7: "isSuitableTo ''6.7'' ''6.7''"
  by code_simp

text \<open>
  C10 as stated, for every query string, fails: at version 6.7 with inline mode enabled, a
  query of 257 characters and no chat types raises \<open>WebAppInlineQueryInvalid\<close>, not the
  chat-types error.
\<close>

theorem switchInlineQuery_long_query_counterexample:
  "isSuitableTo (version (appAtVersion ''6.7'' (Some True))) ''6.7''
   \<and> tgWebAppBotInline (appAtVersion ''6.7'' (Some True)) = Some True
   \<and> switchInlineQuery (appAtVersion ''6.7'' (Some True)) (replicate 257 CHR ''q'') ChatTypesUndefined
       = (Some WebAppInlineQueryInvalid, appAtVersion ''6.7'' (Some True))
   \<and> fst (switchInlineQuery (appAtVersion ''6.7'' (Some True)) (replicate 257 CHR ''q'') ChatTypesUndefined)
       \<noteq> Some WebAppInlineChooseChatTypesInvalid"
proof -
  have v: "isSuitableTo (version (appAtVersion ''6.7'' (Some True))) ''6.7''"
    by (simp add: appAtVersion_def suitable_6_7)
  have i: "tgWebAppBotInline (appAtVersion ''6.7'' (Some True)) = Some True"
    by (simp add: appAtVersion_def)
  have r: "switchInlineQuery (appAtVersion ''6.7'' (Some True)) (replicate 257 CHR ''q'') ChatTypesUndefined
       = (Some WebAppInlineQueryInvalid, appAtVersion ''6.7'' (Some True))"
    using v i by (simp add: switchInlineQuery_def q257 MAX_INLINE_QUERY_LENGTH_def)
  from v i r show ?thesis by simp
qed

text \<open>
  C10, amended. With version at least 6.7 and inline mode enabled: for every query whose
  trimmed length is at most 256, \<open>switchInlineQuery\<close> with the chat types omitted,
  \<open>undefined\<close> or \<open>null\<close> raises \<open>WebAppInlineChooseChatTypesInvalid\<close> and posts nothing; a
  longer query raises \<open>WebAppInlineQueryInvalid\<close> and posts nothing, whatever the chat types;
  and an array of valid chat types is posted with its duplicates removed, each element at
  its first occurrence.
\<close>

theorem switchInlineQuery_chat_types_mandatory:
  "(isSuitableTo (version st) ''6.7'' \<and> tgWebAppBotInline st = Some True
      \<and> length (trim query) \<le> 256
      \<and> (arg = ChatTypesUndefined \<or> arg = ChatTypesNull)
      \<longrightarrow> switchInlineQuery st query arg = (Some WebAppInlineChooseChatTypesInvalid, st))
   \<and> (isSuitableTo (version st1) ''6.7'' \<and> tgWebAppBotInline st1 = Some True
      \<and> length (trim query1) > 256
      \<longrightarrow> switchInlineQuery st1 query1 arg1 = (Some WebAppInlineQueryInvalid, st1))
   \<and> (isSuitableTo (version st2) ''6.7'' \<and> tgWebAppBotInline st2 = Some True
      \<and> length (trim query2) \<le> 256 \<and> set chatTypes \<subseteq> set VALID_CHAT_TYPES
      \<longrightarrow> switchInlineQuery st2 query2 (ChatTypesArray chatTypes) =
            (None, st2\<lparr>effects := effects st2 @
                     [PostEvent ''web_app_switch_inline_query''
                        (SwitchInlineQueryPayload (trim query2) (newSet chatTypes))]\<rparr>)
          \<and> distinct (newSet chatTypes) \<and> set (newSet chatTypes) = set chatTypes
          \<and> newSet chatTypes = rev (remdups (rev chatTypes)))"
proof -
  have a: "isSuitableTo (version st) ''6.7'' \<and> tgWebAppBotInline st = Some True
      \<and> length (trim query) \<le> 256
      \<and> (arg = ChatTypesUndefined \<or> arg = ChatTypesNull)
      \<longrightarrow> switchInlineQuery st query arg = (Some WebAppInlineChooseChatTypesInvalid, st)"
    by (auto simp add: switchInlineQuery_def MAX_INLINE_QUERY_LENGTH_def)
  have b: "isSuitableTo (version st1) ''6.7'' \<and> tgWebAppBotInline st1 = Some True
      \<and> length (trim query1) > 256
      \<longrightarrow> switchInlineQuery st1 query1 arg1 = (Some WebAppInlineQueryInvalid, st1)"
    by (simp add: switchInlineQuery_def MAX_INLINE_QUERY_LENGTH_def)
  have f: "set chatTypes \<subseteq> set VALID_CHAT_TYPES \<Longrightarrow>
      filter (\<lambda>chat. chat \<notin> set VALID_CHAT_TYPES) (newSet chatTypes) = []"
    using set_newSet[of chatTypes] by (auto simp add: filter_empty_conv)
  have c: "isSuitableTo (version st2) ''6.7'' \<and> tgWebAppBotInline st2 = Some True
      \<and> length (trim query2) \<le> 256 \<and> set chatTypes \<subseteq> set VALID_CHAT_TYPES
      \<longrightarrow> switchInlineQuery st2 query2 (ChatTypesArray chatTypes) =
            (None, st2\<lparr>effects := effects st2 @
                     [PostEvent ''web_app_switch_inline_query''
                        (SwitchInlineQueryPayload (trim query2) (newSet chatTypes))]\<rparr>)
          \<and> distinct (newSet chatTypes) \<and> set (newSet chatTypes) = set chatTypes
          \<and> newSet chatTypes = rev (remdups (rev chatTypes))"
    using f
    by (simp add: switchInlineQuery_def MAX_INLINE_QUERY_LENGTH_def postEvent_def Let_def
        distinct_newSet set_newSet newSet_first_occurrences[symmetric])
  from a b c show ?thesis by blast
qed


lemma trim_cats: "trim '' cats '' = ''cats''"
  by code_simp

lemma newSet_example: "newSet [''users'', ''bots'', ''users''] = [''users'', ''bots'']"
  by code_simp

theorem switchInlineQuery_chat_types_mandatory_witness:
  "isSuitableTo (version (appAtVersion ''6.7'' (Some True))) ''6.7''
   \<and> tgWebAppBotInline (appAtVersion ''6.7'' (Some True)) = Some True
   \<and> length (trim '' cats '') \<le> 256
   \<and> switchInlineQuery (appAtVersion ''6.7'' (Some True)) '' cats '' ChatTypesNull
       = (Some WebAppInlineChooseChatTypesInvalid, appAtVersion ''6.7'' (Some True))
   \<and> length (trim (replicate 257 CHR ''q'')) > 256
   \<and> switchInlineQuery (appAtVersion ''6.7'' (Some True)) (replicate 257 CHR ''q'') ChatTypesNull
       = (Some WebAppInlineQueryInvalid, appAtVersion ''6.7'' (Some True))
   \<and> set [''users'', ''bots'', ''users''] \<subseteq> set VALID_CHAT_TYPES
   \<and> switchInlineQuery (appAtVersion ''6.7'' (Some True)) '' cats ''
         (ChatTypesArray [''users'', ''bots'', ''users''])
       = (None, \<lparr>version = ''6.7'', tgWebAppBotInline = Some True, popup = newPopup,
                 clipboard = [], invoices = [],
                 effects = [PostEvent ''web_app_switch_inline_query''
                              (SwitchInlineQueryPayload ''cats'' [''users'', ''bots''])]\<rparr>)"
proof -
  let ?A = "appAtVersion ''6.7'' (Some True)"
  note T = switchInlineQuery_chat_types_mandatory[of ?A "'' cats ''" ChatTypesNull
      ?A "replicate 257 CHR ''q''" ChatTypesNull ?A "'' cats ''" "[''users'', ''bots'', ''users'']"]
  have v: "isSuitableTo (version ?A) ''6.7''"
    by (simp add: appAtVersion_def suitable_6_7)
  have i: "tgWebAppBotInline ?A = Some True"
    by (simp add: appAtVersion_def)
  have l: "length (trim '' cats '') \<le> 256"
    by (simp add: trim_cats)
  have l2: "length (trim (replicate 257 CHR ''q'')) > 256"
    by (simp add: q257)
  have s: "set [''users'', ''bots'', ''users''] \<subseteq> set VALID_CHAT_TYPES"
    by (simp add: VALID_CHAT_TYPES_def)
  have 1: "switchInlineQuery ?A '' cats '' ChatTypesNull = (Some WebAppInlineChooseChatTypesInvalid, ?A)"
    using T v i l by blast
  have 2: "switchInlineQuery ?A (replicate 257 CHR ''q'') ChatTypesNull = (Some WebAppInlineQueryInvalid, ?A)"
    using T v i l2 by blast
  have 3: "switchInlineQuery ?A '' cats '' (ChatTypesArray [''users'', ''bots'', ''users'']) =
            (None, ?A\<lparr>effects := effects ?A @
                     [PostEvent ''web_app_switch_inline_query''
                        (SwitchInlineQueryPayload (trim '' cats '') (newSet [''users'', ''bots'', ''users'']))]\<rparr>)"
    using T v i l s by blast
  have 4: "switchInlineQuery ?A '' cats '' (ChatTypesArray [''users'', ''bots'', ''users''])
       = (None, \<lparr>version = ''6.7'', tgWebAppBotInline = Some True, popup = newPopup,
                 clipboard = [], invoices = [],
                 effects = [PostEvent ''web_app_switch_inline_query''
                              (SwitchInlineQueryPayload ''cats'' [''users'', ''bots''])]\<rparr>)"
    by (simp only: 3 trim_cats newSet_example) (simp add: appAtVersion_def)
  from v i l l2 s 1 2 4 show ?thesis by blast
qed

end
